theory Spec2Isabelle
  imports Complex_Main "HOL-Library.Multiset" "HOL-Library.Product_Lexorder"
begin

text \<open>
  Daylight is a mood tracker: Express handlers (\<open>routes/moods.js\<close>, and an earlier
  \<open>server.js\<close>) that keep mood entries in the Firestore collection \<open>mood_ratings\<close>, and
  a React front end (\<open>App.js\<close>) that charts the daily average. This theory models the
  handlers as functions from a request and a store to a response and a store, and
  \<open>prepareChartData\<close> as a function on the list of entries.
\<close>

section \<open>JavaScript values of the request and of the store\<close>

text \<open>
  A JavaScript number is a double: NaN or a finite value. The numbers of a request that
  matter here (ratings, time values in milliseconds, day counts) are integer valued;
  \<open>Fin n\<close> is the double with the integer value \<open>n\<close>, for an \<open>n\<close> that a double holds.
  What an operation computes from such values is rounded to a double where the code
  computes in doubles (\<open>double_of_int\<close>, \<open>nearest_double\<close> below).
\<close>

datatype jsnum = NaN | Fin int

subsection \<open>Doubles\<close>

text \<open>
  A finite double is represented by its exact value. \<open>nearest_double q\<close> is the double
  nearest to the rational \<open>q\<close>, with 53 bits of mantissa and ties to the even mantissa:
  the result of an arithmetic operation whose exact result is \<open>q\<close>, and of reading the
  decimal \<open>q\<close>. Overflow to infinity (beyond \<open>2^1024\<close>) and subnormal values (below
  \<open>2^-1022\<close>) are left out.
\<close>

text \<open>The number of binary digits of a positive integer.\<close>

function bits :: "int \<Rightarrow> nat" where
  "bits n = (if n \<le> 0 then 0 else Suc (bits (n div 2)))"
  by pat_completeness auto
termination
  by (relation "measure nat") simp_all

declare bits.simps [simp del]

definition pow2 :: "int \<Rightarrow> rat" where
  "pow2 k = (if 0 \<le> k then 2 ^ nat k else 1 / 2 ^ nat (- k))"

definition round_even :: "rat \<Rightarrow> int" where
  "round_even q =
     (let f = \<lfloor>q\<rfloor>; d = q - of_int f
      in if 1 / 2 < d \<or> (d = 1 / 2 \<and> odd f) then f + 1 else f)"

text \<open>The \<open>e\<close> with \<open>2^e \<le> |q| < 2^(e+1)\<close>, for \<open>q\<close> other than 0.\<close>

definition binary_exponent :: "rat \<Rightarrow> int" where
  "binary_exponent q =
     (let (n, d) = quotient_of \<bar>q\<bar>;
          e0 = int (bits n) - int (bits d)
      in if pow2 e0 \<le> \<bar>q\<bar> then e0 else e0 - 1)"

definition nearest_double :: "rat \<Rightarrow> rat" where
  "nearest_double q =
     (if q = 0 then 0
      else (let u = pow2 (binary_exponent q - 52) in of_int (round_even (q / u)) * u))"

text \<open>
  The double nearest to an integer: the integer itself up to \<open>2^53\<close>, an integer
  with 53 significant bits beyond.
\<close>

definition double_of_int :: "int \<Rightarrow> int" where
  "double_of_int n =
     (if \<bar>n\<bar> \<le> 9007199254740992 then n else \<lfloor>nearest_double (of_int n)\<rfloor>)"

text \<open>
  A field of a parsed JSON body or of the query string: absent (\<open>undefined\<close>),
  \<open>null\<close>, a boolean, a number or a string.
\<close>

datatype jsval = JUndefined | JNull | JBool bool | JNum jsnum | JStr string

text \<open>ToBoolean, as used by \<open>!x\<close> and \<open>x || y\<close>.\<close>

fun truthy :: "jsval \<Rightarrow> bool" where
  "truthy JUndefined = False"
| "truthy JNull = False"
| "truthy (JBool b) = b"
| "truthy (JNum NaN) = False"
| "truthy (JNum (Fin n)) = (n \<noteq> 0)"
| "truthy (JStr s) = (s \<noteq> [])"

text \<open>\<open>a || b\<close>\<close>

definition js_or :: "jsval \<Rightarrow> jsval \<Rightarrow> jsval" where
  "js_or a b = (if truthy a then a else b)"

subsection \<open>parseInt\<close>

text \<open>
  A character of a string is a code unit below 256; the white space among these is
  tab, line feed, vertical tab, form feed, carriage return, space and the no-break
  space. Code units from 256 on are not represented.
\<close>

definition is_ws :: "char \<Rightarrow> bool" where
  "is_ws c =
     (c \<in> set [CHR 0x09, CHR 0x0A, CHR 0x0B, CHR 0x0C, CHR 0x0D, CHR '' '', CHR 0xA0])"

text \<open>The value of a character as a digit, whatever the radix.\<close>

definition digit_of :: "char \<Rightarrow> nat option" where
  "digit_of c =
     (let n = (of_char c :: nat) in
      if 48 \<le> n \<and> n \<le> 57 then Some (n - 48)
      else if 97 \<le> n \<and> n \<le> 122 then Some (n - 87)
      else if 65 \<le> n \<and> n \<le> 90 then Some (n - 55)
      else None)"

definition is_digit :: "nat \<Rightarrow> char \<Rightarrow> bool" where
  "is_digit radix c = (case digit_of c of None \<Rightarrow> False | Some d \<Rightarrow> d < radix)"

definition digits_value :: "nat \<Rightarrow> string \<Rightarrow> int" where
  "digits_value radix ds = foldl (\<lambda>a c. a * int radix + int (the (digit_of c))) 0 ds"

text \<open>
  \<open>parseInt(string)\<close> with no radix argument: leading white space is skipped, a sign
  is read, a \<open>0x\<close> or \<open>0X\<close> prefix selects radix 16, and the longest run of digits is
  the value, as the nearest double; no digit at all gives NaN. Whatever follows the
  digits is ignored.
\<close>

definition parseInt_string :: "string \<Rightarrow> jsnum" where
  "parseInt_string s =
     (let s1 = dropWhile is_ws s;
          neg = (take 1 s1 = ''-'');
          s2 = (if take 1 s1 = ''-'' \<or> take 1 s1 = ''+'' then drop 1 s1 else s1);
          hex = (take 2 s2 = ''0x'' \<or> take 2 s2 = ''0X'');
          radix = (if hex then 16 else 10);
          s3 = (if hex then drop 2 s2 else s2);
          ds = takeWhile (is_digit radix) s3
      in if ds = [] then NaN
         else Fin (double_of_int ((if neg then - 1 else 1) * digits_value radix ds)))"

text \<open>
  The string of an integer-valued double \<open>m\<close> from \<open>10^21\<close> on is in exponent notation,
  \<open>d.ddde+N\<close> with the fewest digits that read back as \<open>m\<close>, and \<open>parseInt\<close> stops after
  its first digit. That digit is the leading digit of \<open>m\<close>, or the next one when the
  next one alone, with zeros, already reads back as \<open>m\<close>.
\<close>

text \<open>The number of decimal digits of a positive integer.\<close>

function ndigits :: "int \<Rightarrow> nat" where
  "ndigits n = (if n < 10 then 1 else Suc (ndigits (n div 10)))"
  by pat_completeness auto
termination
  by (relation "measure nat") simp_all

declare ndigits.simps [simp del]

definition first_digit :: "int \<Rightarrow> int" where
  "first_digit m =
     (let p = 10 ^ (ndigits m - 1); ld = m div p
      in if double_of_int ((ld + 1) * p) = m then (if ld = 9 then 1 else ld + 1)
         else ld)"

text \<open>
  \<open>parseInt(v)\<close> converts \<open>v\<close> to a string first: \<open>undefined\<close>, \<open>null\<close>, booleans and
  NaN give strings with no leading digit, an integer below \<open>10^21\<close> gives its decimal
  digits.
\<close>

fun parseInt :: "jsval \<Rightarrow> jsnum" where
  "parseInt JUndefined = NaN"
| "parseInt JNull = NaN"
| "parseInt (JBool b) = NaN"
| "parseInt (JNum NaN) = NaN"
| "parseInt (JNum (Fin n)) =
     (if \<bar>n\<bar> < 10 ^ 21 then Fin n
      else Fin ((if n < 0 then - 1 else 1) * first_digit \<bar>n\<bar>))"
| "parseInt (JStr s) = parseInt_string s"

subsection \<open>Dates\<close>

text \<open>
  A \<open>Date\<close> object is its time value, milliseconds since the epoch; \<open>None\<close> is the
  Invalid Date (time value NaN).
\<close>

type_synonym jsdate = "int option"

definition timeClip :: "int \<Rightarrow> jsdate" where
  "timeClip t = (if \<bar>t\<bar> \<le> 8640000000000000 then Some t else None)"

definition msPerDay :: int where "msPerDay = 86400000"

section \<open>External collaborators\<close>

text \<open>A Firestore \<open>Timestamp\<close>.\<close>

record timestamp =
  seconds :: int
  nanoseconds :: int

definition ts_key :: "timestamp \<Rightarrow> int \<times> int" where
  "ts_key t = (seconds t, nanoseconds t)"

text \<open>
  What the handlers call and this repository does not define:
  \<^item> \<open>verifyIdToken\<close>: \<open>admin.auth().verifyIdToken\<close>, the uid of the decoded token,
    \<open>None\<close> when the promise rejects;
  \<^item> \<open>dateParse\<close>: \<open>Date.parse\<close> on a string (its accepted formats depend on the host),
    \<open>None\<close> for NaN;
  \<^item> \<open>tsFromDate\<close>: \<open>admin.firestore.Timestamp.fromDate\<close>, \<open>None\<close> when it throws;
  \<^item> \<open>LocalTZA\<close>: the host's time zone, as the language specification has it:
    \<open>LocalTZA t True\<close> is the offset of local time from UTC, in milliseconds, at the UTC
    time \<open>t\<close>, and \<open>LocalTZA t False\<close> the offset at the local time \<open>t\<close>;
  \<^item> \<open>emptyUpdateThrows\<close>: whether \<open>DocumentReference.update\<close> rejects an update map
    with no field.
\<close>

record env =
  verifyIdToken :: "string \<Rightarrow> string option"
  dateParse :: "string \<Rightarrow> int option"
  tsFromDate :: "jsdate \<Rightarrow> timestamp option"
  LocalTZA :: "int \<Rightarrow> bool \<Rightarrow> int"
  emptyUpdateThrows :: bool

text \<open>\<open>new Date(v)\<close> for a body field \<open>v\<close>.\<close>

fun newDate :: "env \<Rightarrow> jsval \<Rightarrow> jsdate" where
  "newDate E JUndefined = None"
| "newDate E JNull = Some 0"
| "newDate E (JBool b) = Some (if b then 1 else 0)"
| "newDate E (JNum NaN) = None"
| "newDate E (JNum (Fin n)) = timeClip n"
| "newDate E (JStr s) = (case dateParse E s of None \<Rightarrow> None | Some t \<Rightarrow> timeClip t)"

definition LocalTime :: "env \<Rightarrow> int \<Rightarrow> int" where
  "LocalTime E t = t + LocalTZA E t True"

definition UTC :: "env \<Rightarrow> int \<Rightarrow> int" where
  "UTC E t = t - LocalTZA E t False"

text \<open>
  \<open>d.setDate(d.getDate() - days)\<close> for a Date with the time value \<open>now\<close>. \<open>setDate\<close> takes
  the local time \<open>t\<close> of the date, makes the day \<open>MakeDay(year, month, date - days)\<close>,
  which is \<open>Day(t) - days\<close>, keeps the time within the day, and goes back to UTC:
  the local time moves back by \<open>days\<close> whole days. The time value of a valid date is an
  integer of magnitude below \<open>2^53\<close>, so the arithmetic of doubles is exact whenever the
  result is a valid date, and a result beyond the range of TimeClip is the Invalid
  Date. NaN makes the date invalid.
\<close>

fun setDateBack :: "env \<Rightarrow> int \<Rightarrow> jsnum \<Rightarrow> jsdate" where
  "setDateBack E now NaN = None"
| "setDateBack E now (Fin n) = timeClip (UTC E (LocalTime E now - n * msPerDay))"

text \<open>
  \<open>Timestamp.fromDate\<close> as the Firestore library has it: \<open>fromMillis(date.getTime())\<close>,
  with \<open>seconds = floor(ms / 1000)\<close> and the rest in nanoseconds; the constructor throws
  unless the seconds are an integer from \<open>-62135596800\<close> to \<open>253402300799\<close> (the years 1
  to 9999), so it throws on an Invalid Date too.
\<close>

definition Timestamp_fromDate :: "jsdate \<Rightarrow> timestamp option" where
  "Timestamp_fromDate d =
     (case d of
        None \<Rightarrow> None
      | Some ms \<Rightarrow>
          if - 62135596800 \<le> ms div 1000 \<and> ms div 1000 \<le> 253402300799
          then Some \<lparr>seconds = ms div 1000, nanoseconds = (ms mod 1000) * 1000000\<rparr>
          else None)"

subsection \<open>The collection \<open>mood_ratings\<close>\<close>

text \<open>
  A document of the collection, as the handlers write it (\<open>mood_notes\<close> is the field
  \<open>notes\<close>). Document ids are opaque;
  they are natural numbers here, and \<open>add\<close> picks an unused one.
\<close>

record mood =
  userId :: string
  moodValue :: jsnum
  mood_notes :: jsval
  recordedAt :: timestamp

type_synonym docid = nat

type_synonym store = "(docid \<times> mood) list"

definition doc_ids :: "store \<Rightarrow> docid set" where
  "doc_ids st = fst ` set st"

definition doc_get :: "store \<Rightarrow> docid \<Rightarrow> mood option" where
  "doc_get st i = map_of st i"

definition autoId :: "store \<Rightarrow> docid" where
  "autoId st = Suc (fold max (map fst st) 0)"

definition coll_add :: "store \<Rightarrow> mood \<Rightarrow> store" where
  "coll_add st d = st @ [(autoId st, d)]"

definition doc_delete :: "store \<Rightarrow> docid \<Rightarrow> store" where
  "doc_delete st i = filter (\<lambda>(j, d). j \<noteq> i) st"

text \<open>The update map built by the PUT handler: each field is present or not.\<close>

record updateData =
  u_moodValue :: "jsnum option"
  u_notes :: "jsval option"
  u_recordedAt :: "timestamp option"

definition apply_update :: "updateData \<Rightarrow> mood \<Rightarrow> mood" where
  "apply_update u d =
     d\<lparr> moodValue := (case u_moodValue u of None \<Rightarrow> moodValue d | Some v \<Rightarrow> v),
        mood_notes := (case u_notes u of None \<Rightarrow> mood_notes d | Some v \<Rightarrow> v),
        recordedAt := (case u_recordedAt u of None \<Rightarrow> recordedAt d | Some v \<Rightarrow> v) \<rparr>"

definition doc_update :: "store \<Rightarrow> docid \<Rightarrow> updateData \<Rightarrow> store" where
  "doc_update st i u = map (\<lambda>(j, d). if j = i then (j, apply_update u d) else (j, d)) st"

text \<open>
  The query \<open>where userId == uid, where recordedAt >= cutoff, orderBy recordedAt desc\<close>;
  documents with equal \<open>recordedAt\<close> come in descending order of their ids.
\<close>

definition recent_query :: "store \<Rightarrow> string \<Rightarrow> timestamp \<Rightarrow> (docid \<times> mood) list" where
  "recent_query st uid cutoff =
     rev (sort_key (\<lambda>(i, d). (ts_key (recordedAt d), i))
            (filter (\<lambda>(i, d). userId d = uid \<and> ts_key cutoff \<le> ts_key (recordedAt d)) st))"

section \<open>Requests and responses\<close>

record request =
  authorization :: "string option"
  body :: "string \<Rightarrow> jsval"
  query :: "string \<Rightarrow> jsval"
  param_id :: docid

datatype resp_body =
    Message string
  | Error string
  | MoodAdded string "docid option"
  | Moods "(docid \<times> mood) list"
  | NoBody

record response =
  status :: nat
  json :: resp_body

section \<open>The middleware \<open>verifyFirebaseIdToken\<close>\<close>

text \<open>The first occurrence of a separator: what is before it and what is after it.\<close>

fun split_first :: "string \<Rightarrow> string \<Rightarrow> (string \<times> string) option" where
  "split_first sep [] = (if sep = [] then Some ([], []) else None)"
| "split_first sep (c # cs) =
     (if take (length sep) (c # cs) = sep then Some ([], drop (length sep) (c # cs))
      else map_option (\<lambda>(b, a). (c # b, a)) (split_first sep cs))"

text \<open>
  \<open>req.headers.authorization?.split('Bearer ')[1]\<close>: the text between the first and the
  second occurrence of \<open>'Bearer '\<close> (or up to the end); \<open>None\<close> is \<open>undefined\<close>.
\<close>

definition idToken :: "request \<Rightarrow> string option" where
  "idToken req =
     (case authorization req of
        None \<Rightarrow> None
      | Some h \<Rightarrow>
          (case split_first ''Bearer '' h of
             None \<Rightarrow> None
           | Some (b, rest) \<Rightarrow>
               (case split_first ''Bearer '' rest of
                  None \<Rightarrow> Some rest
                | Some (tok, a) \<Rightarrow> Some tok)))"

text \<open>The middleware answers 401 itself (\<open>Inl\<close>) or passes \<open>req.firebaseUid\<close> on.\<close>

definition verifyFirebaseIdToken :: "env \<Rightarrow> request \<Rightarrow> response + string" where
  "verifyFirebaseIdToken E req =
     (case idToken req of
        None \<Rightarrow> Inl \<lparr>status = 401, json = Message ''No token provided''\<rparr>
      | Some tok \<Rightarrow>
          if tok = [] then Inl \<lparr>status = 401, json = Message ''No token provided''\<rparr>
          else (case verifyIdToken E tok of
                  None \<Rightarrow> Inl \<lparr>status = 401, json = Message ''Invalid token''\<rparr>
                | Some uid \<Rightarrow> Inr uid))"

section \<open>The handlers of \<open>routes/moods.js\<close>\<close>

text \<open>
  \<open>router.post('/')\<close>. The document is handed to \<open>add\<close> without \<open>await\<close>, so the
  response is sent with \<open>moodRef.id\<close> read off the promise: \<open>undefined\<close>.
\<close>

definition router_post :: "env \<Rightarrow> request \<Rightarrow> store \<Rightarrow> response \<times> store" where
  "router_post E req st =
     (case verifyFirebaseIdToken E req of
        Inl r \<Rightarrow> (r, st)
      | Inr firebaseUid \<Rightarrow>
          if \<not> truthy (body req ''moodValue'') then
            (\<lparr>status = 400, json = Message ''Mood value is required.''\<rparr>, st)
          else if \<not> truthy (body req ''recordedAt'') then
            (\<lparr>status = 400, json = Message ''Recorded date and time is required.''\<rparr>, st)
          else
            (case tsFromDate E (newDate E (body req ''recordedAt'')) of
               None \<Rightarrow>
                 (\<lparr>status = 500, json = Error ''Internal Server Error while adding mood.''\<rparr>, st)
             | Some ts \<Rightarrow>
                 (\<lparr>status = 201, json = MoodAdded ''Mood entry added successfully.'' None\<rparr>,
                  coll_add st
                    \<lparr>userId = firebaseUid,
                     moodValue = parseInt (body req ''moodValue''),
                     mood_notes = js_or (body req ''notes'') (JStr ''''),
                     recordedAt = ts\<rparr>)))"

text \<open>\<open>router.get('/recent')\<close>, at the time \<open>now\<close> of \<open>new Date()\<close>.\<close>

definition router_get_recent :: "env \<Rightarrow> int \<Rightarrow> request \<Rightarrow> store \<Rightarrow> response \<times> store" where
  "router_get_recent E now req st =
     (case verifyFirebaseIdToken E req of
        Inl r \<Rightarrow> (r, st)
      | Inr firebaseUid \<Rightarrow>
          (let days = parseInt (js_or (query req ''days'') (JStr ''30''));
               cutOffDate = setDateBack E now days
           in case tsFromDate E cutOffDate of
                None \<Rightarrow>
                  (\<lparr>status = 500, json = Error ''Internal Server Error while fetching moods.''\<rparr>, st)
              | Some cutoff \<Rightarrow>
                  (\<lparr>status = 200, json = Moods (recent_query st firebaseUid cutoff)\<rparr>, st)))"

text \<open>The three optional fields of the PUT body, converted as the handler does.\<close>

definition put_updateData :: "env \<Rightarrow> request \<Rightarrow> updateData option" where
  "put_updateData E req =
     (let mv = body req ''moodValue''; nt = body req ''notes''; ra = body req ''recordedAt''
      in if ra \<noteq> JUndefined \<and> tsFromDate E (newDate E ra) = None then None
         else Some \<lparr>u_moodValue = (if mv \<noteq> JUndefined then Some (parseInt mv) else None),
                    u_notes = (if nt \<noteq> JUndefined then Some nt else None),
                    u_recordedAt = (if ra \<noteq> JUndefined then tsFromDate E (newDate E ra) else None)\<rparr>)"

definition is_empty_update :: "updateData \<Rightarrow> bool" where
  "is_empty_update u = (u_moodValue u = None \<and> u_notes u = None \<and> u_recordedAt u = None)"

text \<open>\<open>router.put('/:id')\<close>\<close>

definition router_put :: "env \<Rightarrow> request \<Rightarrow> store \<Rightarrow> response \<times> store" where
  "router_put E req st =
     (case verifyFirebaseIdToken E req of
        Inl r \<Rightarrow> (r, st)
      | Inr firebaseUid \<Rightarrow>
          (case doc_get st (param_id req) of
             None \<Rightarrow> (\<lparr>status = 404, json = Message ''Mood entry not found.''\<rparr>, st)
           | Some d \<Rightarrow>
               if userId d \<noteq> firebaseUid then
                 (\<lparr>status = 403, json = Message ''Unauthorized to update this mood entry.''\<rparr>, st)
               else
                 (case put_updateData E req of
                    None \<Rightarrow>
                      (\<lparr>status = 500,
                        json = Error ''Internal Server Error while updating mood.''\<rparr>, st)
                  | Some u \<Rightarrow>
                      if is_empty_update u \<and> emptyUpdateThrows E then
                        (\<lparr>status = 500,
                          json = Error ''Internal Server Error while updating mood.''\<rparr>, st)
                      else
                        (\<lparr>status = 200, json = Message ''Mood entry updated successfully.''\<rparr>,
                         doc_update st (param_id req) u))))"

text \<open>\<open>router.delete('/:id')\<close>\<close>

definition router_delete :: "env \<Rightarrow> request \<Rightarrow> store \<Rightarrow> response \<times> store" where
  "router_delete E req st =
     (case verifyFirebaseIdToken E req of
        Inl r \<Rightarrow> (r, st)
      | Inr firebaseUid \<Rightarrow>
          (case doc_get st (param_id req) of
             None \<Rightarrow> (\<lparr>status = 404, json = Message ''Mood entry not found.''\<rparr>, st)
           | Some d \<Rightarrow>
               if userId d \<noteq> firebaseUid then
                 (\<lparr>status = 403, json = Message ''Unauthorized to delete this mood entry.''\<rparr>, st)
               else (\<lparr>status = 204, json = NoBody\<rparr>, doc_delete st (param_id req))))"

section \<open>The handlers of the earlier \<open>server.js\<close>\<close>

text \<open>
  \<open>app.post('/api/moods')\<close>: the body's \<open>recordedAt\<close> is not read; the document gets
  \<open>FieldValue.serverTimestamp()\<close>, the store's time \<open>serverTime\<close> of the write.
\<close>

definition app_post :: "env \<Rightarrow> timestamp \<Rightarrow> request \<Rightarrow> store \<Rightarrow> response \<times> store" where
  "app_post E serverTime req st =
     (case verifyFirebaseIdToken E req of
        Inl r \<Rightarrow> (r, st)
      | Inr firebaseUid \<Rightarrow>
          if \<not> truthy (body req ''moodValue'') then
            (\<lparr>status = 400, json = Message ''Mood value is required.''\<rparr>, st)
          else
            (\<lparr>status = 201,
              json = MoodAdded ''Mood entry added successfully.'' (Some (autoId st))\<rparr>,
             coll_add st
               \<lparr>userId = firebaseUid,
                moodValue = parseInt (body req ''moodValue''),
                mood_notes = js_or (body req ''notes'') (JStr ''''),
                recordedAt = serverTime\<rparr>))"

text \<open>\<open>app.get('/api/moods/recent')\<close>: the same query, with a default of 7 days.\<close>

definition app_get_recent :: "env \<Rightarrow> int \<Rightarrow> request \<Rightarrow> store \<Rightarrow> response \<times> store" where
  "app_get_recent E now req st =
     (case verifyFirebaseIdToken E req of
        Inl r \<Rightarrow> (r, st)
      | Inr firebaseUid \<Rightarrow>
          (let days = parseInt (js_or (query req ''days'') (JStr ''7''));
               cutOffDate = setDateBack E now days
           in case tsFromDate E cutOffDate of
                None \<Rightarrow>
                  (\<lparr>status = 500, json = Error ''Internal Server Error while fetching moods.''\<rparr>, st)
              | Some cutoff \<Rightarrow>
                  (\<lparr>status = 200, json = Moods (recent_query st firebaseUid cutoff)\<rparr>, st)))"

section \<open>The rating domain of the specification\<close>

text \<open>
  The specification's domain of a rating, the integers 1 to 5, and its invariant on the
  store: every entry's rating is in the domain. These two follow the specification; the
  handlers above do not mention them.
\<close>

fun valid_rating :: "jsnum \<Rightarrow> bool" where
  "valid_rating NaN = False"
| "valid_rating (Fin n) = (1 \<le> n \<and> n \<le> 5)"

definition rating_in_range :: "store \<Rightarrow> bool" where
  "rating_in_range st = list_all (\<lambda>(i, d). valid_rating (moodValue d)) st"

section \<open>The chart data of \<open>App.js\<close>\<close>

subsection \<open>The calendar of ECMAScript\<close>

text \<open>
  \<open>date.toISOString().split('T')[0]\<close> is the UTC calendar date of the time value. The
  definitions are those of the language specification: \<open>Day(t)\<close>, \<open>DayFromYear(y)\<close>,
  the leap year rule, \<open>YearFromTime\<close> as the largest year that starts on or before the
  day, the month and the date from the day within the year. They work on the day number
  \<open>Day(t)\<close>; the time within the day plays no part in the date.
\<close>

definition Day :: "int \<Rightarrow> int" where "Day t = t div msPerDay"

definition DayFromYear :: "int \<Rightarrow> int" where
  "DayFromYear y = 365 * (y - 1970) + (y - 1969) div 4 - (y - 1901) div 100 + (y - 1601) div 400"

definition InLeapYear :: "int \<Rightarrow> int" where
  "InLeapYear y = (if y mod 4 \<noteq> 0 then 0 else if y mod 100 \<noteq> 0 then 1
                   else if y mod 400 \<noteq> 0 then 0 else 1)"


text \<open>
  One year further on is 365 days later, or 366 after a leap year. The search for the
  year below terminates by this.
\<close>

lemma div_succ:
  fixes a n :: int
  assumes "0 < n"
  shows "(a + 1) div n = a div n + (if (a + 1) mod n = 0 then 1 else 0)"
proof -
  have dm: "n * (a div n) + a mod n = a" by simp
  show ?thesis
  proof (cases "a mod n = n - 1")
    case True
    have "n * (a div n + 1) = n * (a div n) + n" by (simp add: algebra_simps)
    then have "a + 1 = n * (a div n + 1) + 0"
      using True dm by linarith
    then have "(a + 1) div n = a div n + 1" "(a + 1) mod n = 0"
      using assms int_div_pos_eq [of "a + 1" n "a div n + 1" 0]
        int_mod_pos_eq [of "a + 1" n "a div n + 1" 0] by auto
    then show ?thesis by simp
  next
    case False
    have nn: "0 \<le> a mod n" "a mod n < n" using assms by simp_all
    with False have r: "0 \<le> a mod n + 1" "a mod n + 1 < n" by linarith+
    have "a + 1 = n * (a div n) + (a mod n + 1)"
      using dm by linarith
    then have "(a + 1) div n = a div n" "(a + 1) mod n = a mod n + 1"
      using r int_div_pos_eq [of "a + 1" n "a div n" "a mod n + 1"]
        int_mod_pos_eq [of "a + 1" n "a div n" "a mod n + 1"] by auto
    then show ?thesis using nn by simp
  qed
qed

lemma mod_shift: "(y - k) mod n = 0 \<longleftrightarrow> y mod n = 0" if "k mod n = 0" for y k n :: int
proof -
  have "(y - k) mod n = (y mod n - k mod n) mod n" by (simp add: mod_diff_eq)
  then show ?thesis using that by simp
qed

lemma mod_100_4: "y mod 4 = 0" if "y mod 100 = 0" for y :: int
proof -
  have "(4::int) dvd 100" by simp
  then have "y mod 100 mod 4 = y mod 4" by (rule mod_mod_cancel)
  with that show ?thesis by simp
qed

lemma mod_400_100: "y mod 100 = 0" if "y mod 400 = 0" for y :: int
proof -
  have "(100::int) dvd 400" by simp
  then have "y mod 400 mod 100 = y mod 100" by (rule mod_mod_cancel)
  with that show ?thesis by simp
qed

lemma DayFromYear_Suc: "DayFromYear (y + 1) = DayFromYear y + 365 + InLeapYear y"
proof -
  define l4 l100 l400 :: int where
    "l4 = (if y mod 4 = 0 then 1 else 0)" and
    "l100 = (if y mod 100 = 0 then 1 else 0)" and
    "l400 = (if y mod 400 = 0 then 1 else 0)"
  define q4 q100 q400 where
    "q4 = (y - 1969) div 4" and "q100 = (y - 1901) div 100" and "q400 = (y - 1601) div 400"
  have a: "(y - 1968) div 4 = q4 + l4"
    using div_succ [of 4 "y - 1969"] mod_shift [of 1968 4 y] by (simp add: q4_def l4_def)
  have b: "(y - 1900) div 100 = q100 + l100"
    using div_succ [of 100 "y - 1901"] mod_shift [of 1900 100 y] by (simp add: q100_def l100_def)
  have c: "(y - 1600) div 400 = q400 + l400"
    using div_succ [of 400 "y - 1601"] mod_shift [of 1600 400 y] by (simp add: q400_def l400_def)
  have leap: "InLeapYear y = l4 - l100 + l400"
    using mod_100_4 [of y] mod_400_100 [of y]
    by (auto simp: InLeapYear_def l4_def l100_def l400_def)
  have "DayFromYear (y + 1) = 365 * (y - 1969) + (q4 + l4) - (q100 + l100) + (q400 + l400)"
    by (simp add: DayFromYear_def a b c)
  moreover have "DayFromYear y = 365 * (y - 1970) + q4 - q100 + q400"
    by (simp add: DayFromYear_def q4_def q100_def q400_def)
  ultimately show ?thesis using leap by simp
qed

lemma DayFromYear_pred: "DayFromYear (y - 1) < DayFromYear y"
  using DayFromYear_Suc [of "y - 1"] by (simp add: InLeapYear_def)


text \<open>
  The largest year \<open>y\<close> with \<open>DayFromYear y \<le> d\<close>: from a first guess, up while the next
  year still starts on or before \<open>d\<close>, then down while the year starts after \<open>d\<close>.
\<close>

function year_up :: "int \<Rightarrow> int \<Rightarrow> int" where
  "year_up d y = (if DayFromYear (y + 1) \<le> d then year_up d (y + 1) else y)"
  by pat_completeness auto
termination
proof (relation "measure (\<lambda>(d, y). nat (d + 1 - DayFromYear (y + 1)))", goal_cases)
  case 1 show ?case by simp
next
  case (2 d y)
  then show ?case using DayFromYear_Suc [of "y + 1"] by (simp add: InLeapYear_def)
qed

function year_down :: "int \<Rightarrow> int \<Rightarrow> int" where
  "year_down d y = (if d < DayFromYear y then year_down d (y - 1) else y)"
  by pat_completeness auto
termination
proof (relation "measure (\<lambda>(d, y). nat (DayFromYear y - d))", goal_cases)
  case 1 show ?case by simp
next
  case (2 d y)
  then show ?case using DayFromYear_pred [of y] by simp
qed

definition YearFromDay :: "int \<Rightarrow> int" where
  "YearFromDay d = year_down d (year_up d (1970 + d div 365))"


declare year_up.simps [simp del] year_down.simps [simp del]

text \<open>
  \<open>monthStart leap m\<close> is the day within the year on which month \<open>m\<close> (0 to 11) starts.
\<close>

definition DayWithinYear :: "int \<Rightarrow> int" where
  "DayWithinYear d = d - DayFromYear (YearFromDay d)"

definition monthStart :: "int \<Rightarrow> int \<Rightarrow> int" where
  "monthStart leap m =
     (if m = 0 then 0 else if m = 1 then 31 else if m = 2 then 59 + leap
      else if m = 3 then 90 + leap else if m = 4 then 120 + leap
      else if m = 5 then 151 + leap else if m = 6 then 181 + leap
      else if m = 7 then 212 + leap else if m = 8 then 243 + leap
      else if m = 9 then 273 + leap else if m = 10 then 304 + leap
      else 334 + leap)"

definition MonthFromDay :: "int \<Rightarrow> int" where
  "MonthFromDay d =
     (let w = DayWithinYear d; leap = InLeapYear (YearFromDay d) in
      if w < 31 then 0 else if w < 59 + leap then 1 else if w < 90 + leap then 2
      else if w < 120 + leap then 3 else if w < 151 + leap then 4
      else if w < 181 + leap then 5 else if w < 212 + leap then 6
      else if w < 243 + leap then 7 else if w < 273 + leap then 8
      else if w < 304 + leap then 9 else if w < 334 + leap then 10 else 11)"

definition DateFromDay :: "int \<Rightarrow> int" where
  "DateFromDay d =
     DayWithinYear d - monthStart (InLeapYear (YearFromDay d)) (MonthFromDay d) + 1"


text \<open>
  The date part of \<open>toISOString\<close>: the year with four digits, or with a sign and six
  digits outside 0 to 9999, then month and date with two digits each.
\<close>

definition digit_char :: "nat \<Rightarrow> char" where
  "digit_char n = char_of (48 + n)"

definition pad2 :: "nat \<Rightarrow> string" where
  "pad2 n = [digit_char (n div 10 mod 10), digit_char (n mod 10)]"

definition pad4 :: "nat \<Rightarrow> string" where
  "pad4 n = pad2 (n div 100) @ pad2 (n mod 100)"

definition pad6 :: "nat \<Rightarrow> string" where
  "pad6 n = pad2 (n div 10000) @ pad4 (n mod 10000)"

definition yearString :: "int \<Rightarrow> string" where
  "yearString y =
     (if 0 \<le> y \<and> y \<le> 9999 then pad4 (nat y)
      else if y < 0 then CHR ''-'' # pad6 (nat (- y))
      else CHR ''+'' # pad6 (nat y))"

definition isoDate :: "int \<Rightarrow> string" where
  "isoDate d =
     yearString (YearFromDay d) @ ''-'' @ pad2 (nat (MonthFromDay d + 1)) @ ''-''
       @ pad2 (nat (DateFromDay d))"


text \<open>
  \<open>new Date(k)\<close> for a key \<open>k\<close> of the form \<open>YYYY-MM-DD\<close> or \<open>\<plusminus>YYYYYY-MM-DD\<close>: a
  date-only string is read as UTC midnight of that calendar date. \<open>parseIsoDate\<close> gives
  its day number, \<open>None\<close> (an Invalid Date) when the string has another form or names
  no calendar date.
\<close>

definition read_digits :: "string \<Rightarrow> int option" where
  "read_digits s =
     (if s \<noteq> [] \<and> list_all (is_digit 10) s then Some (digits_value 10 s) else None)"

definition DaysInMonth :: "int \<Rightarrow> int \<Rightarrow> int" where
  "DaysInMonth leap m =
     (if m = 1 then 28 + leap else if m = 3 \<or> m = 5 \<or> m = 8 \<or> m = 10 then 30 else 31)"

definition MakeDay :: "int \<Rightarrow> int \<Rightarrow> int \<Rightarrow> int" where
  "MakeDay y m dt = DayFromYear y + monthStart (InLeapYear y) m + dt - 1"

definition parse_ymd :: "int \<Rightarrow> string \<Rightarrow> string \<Rightarrow> string \<Rightarrow> int option" where
  "parse_ymd sg ys ms ds =
     (case (read_digits ys, read_digits ms, read_digits ds) of
        (Some y, Some m, Some dt) \<Rightarrow>
          if 1 \<le> m \<and> m \<le> 12 \<and> 1 \<le> dt \<and> dt \<le> DaysInMonth (InLeapYear (sg * y)) (m - 1)
          then Some (MakeDay (sg * y) (m - 1) dt) else None
      | _ \<Rightarrow> None)"

definition parseIsoDate :: "string \<Rightarrow> int option" where
  "parseIsoDate s =
     (if length s = 10 \<and> s ! 4 = CHR ''-'' \<and> s ! 7 = CHR ''-'' then
        parse_ymd 1 (take 4 s) (take 2 (drop 5 s)) (drop 8 s)
      else if length s = 13 \<and> (s ! 0 = CHR ''+'' \<or> s ! 0 = CHR ''-'')
              \<and> s ! 7 = CHR ''-'' \<and> s ! 10 = CHR ''-'' \<and> take 7 s \<noteq> ''-000000'' then
        parse_ymd (if s ! 0 = CHR ''-'' then - 1 else 1)
          (take 6 (drop 1 s)) (take 2 (drop 8 s)) (drop 11 s)
      else None)"


subsection \<open>\<open>prepareChartData\<close>\<close>

text \<open>
  An element of \<open>moods\<close>: its \<open>recordedAt\<close> is a \<open>Date\<close> or an object with the field
  \<open>_seconds\<close>, its \<open>moodValue\<close> an integer (a rating stored as NaN arrives as
  \<open>null\<close>, which adds 0 to a sum: it is the value 0 here).
\<close>

datatype recorded = RDate jsdate | RTimestamp int

record mood_item =
  item_recordedAt :: recorded
  item_moodValue :: int


text \<open>
  \<open>toISOString\<close> throws a RangeError on an Invalid Date; nothing in \<open>prepareChartData\<close>
  catches it.
\<close>

datatype js_error = RangeError


text \<open>
  \<open>mood.recordedAt instanceof Date ? mood.recordedAt : new Date(mood.recordedAt._seconds * 1000)\<close>.
  The time value of a \<open>Date\<close> is NaN or within the range of TimeClip, whichever way
  the \<open>Date\<close> was made.
\<close>

fun to_date :: "recorded \<Rightarrow> jsdate" where
  "to_date (RDate d) = (case d of None \<Rightarrow> None | Some t \<Rightarrow> timeClip t)"
| "to_date (RTimestamp s) = timeClip (s * 1000)"

definition dateString :: "int \<Rightarrow> string" where
  "dateString t = isoDate (Day t)"


text \<open>
  \<open>dailyMoods\<close> is an object keyed by date string; its keys are kept in the order of
  their creation, so it is a list of keys with their buckets.
\<close>

record daily =
  totalRating :: int
  count :: int
  originalDate :: int


text \<open>
  The body of the \<open>forEach\<close>: a bucket is created for a new date string with the
  entry's date as \<open>originalDate\<close>, then the rating is added and the count raised. The
  sum is a sum of doubles, rounded when it passes \<open>2^53\<close>; the count stays exact, an
  array having fewer than \<open>2^32\<close> elements.
\<close>

definition add_mood ::
  "(string \<times> daily) list \<Rightarrow> mood_item \<Rightarrow> js_error + (string \<times> daily) list" where
  "add_mood dailyMoods mood =
     (case to_date (item_recordedAt mood) of
        None \<Rightarrow> Inl RangeError
      | Some date \<Rightarrow>
          (let k = dateString date;
               dm = (if map_of dailyMoods k = None
                     then dailyMoods @ [(k, \<lparr>totalRating = 0, count = 0, originalDate = date\<rparr>)]
                     else dailyMoods)
           in Inr (map (\<lambda>(k', b). if k' = k
                                    then (k', b\<lparr>totalRating :=
                                                 double_of_int (totalRating b + item_moodValue mood),
                                               count := count b + 1\<rparr>)
                                    else (k', b)) dm)))"

fun forEach_moods ::
  "(string \<times> daily) list \<Rightarrow> mood_item list \<Rightarrow> js_error + (string \<times> daily) list" where
  "forEach_moods dailyMoods [] = Inr dailyMoods"
| "forEach_moods dailyMoods (mood # moods) =
     (case add_mood dailyMoods mood of
        Inl e \<Rightarrow> Inl e
      | Inr dm \<Rightarrow> forEach_moods dm moods)"


text \<open>
  The comparator of the sort is \<open>new Date(a) - new Date(b)\<close>. The time value of a key
  that is not a date would be NaN; every key here is written by \<open>toISOString\<close>.
\<close>

definition date_value :: "string \<Rightarrow> int" where
  "date_value k = (case parseIsoDate k of None \<Rightarrow> 0 | Some d \<Rightarrow> d * msPerDay)"

definition moodColors :: "int \<Rightarrow> string option" where
  "moodColors r =
     (if r = 1 then Some ''#FF0000'' else if r = 2 then Some ''#FFA500''
      else if r = 3 then Some ''#FFFF00'' else if r = 4 then Some ''#008000''
      else if r = 5 then Some ''#0000FF'' else None)"


text \<open>
  \<open>Math.round\<close> rounds half up. \<open>toFixed(2)\<close> writes the \<open>n / 100\<close> nearest to the exact
  value of the double, the larger \<open>n\<close> of two, with the sign in front, and
  \<open>parseFloat\<close> reads the decimal back as the nearest double; from \<open>10^21\<close> on
  \<open>toFixed\<close> writes the number as \<open>String\<close> does, and it reads back as itself.
\<close>

definition Math_round :: "rat \<Rightarrow> int" where
  "Math_round a = \<lfloor>a + 1 / 2\<rfloor>"

definition toFixed2 :: "rat \<Rightarrow> rat" where
  "toFixed2 a =
     (if 10 ^ 21 \<le> \<bar>a\<bar> then a
      else (if a < 0 then - 1 else 1)
             * nearest_double (of_int \<lfloor>\<bar>a\<bar> * 100 + 1 / 2\<rfloor> / 100))"


text \<open>
  A chart point; \<open>avgRating\<close> is the quotient of two doubles, a double. Its \<open>marker\<close>
  has the constant \<open>radius\<close> and \<open>symbol\<close> besides the \<open>fillColor\<close>, and its
  \<open>dataLabels\<close> are constant; only \<open>x\<close>, \<open>y\<close> and \<open>fillColor\<close> depend on the input
  (\<open>point_x\<close> and \<open>point_y\<close> here).
\<close>

record point =
  point_x :: int
  point_y :: rat
  fillColor :: string

definition chart_point :: "daily \<Rightarrow> point" where
  "chart_point b =
     (let avgRating = nearest_double (of_int (totalRating b) / of_int (count b));
          roundedRating = Math_round avgRating
      in \<lparr>point_x = originalDate b,
          point_y = toFixed2 avgRating,
          fillColor = (case moodColors roundedRating of None \<Rightarrow> ''#CCCCCC'' | Some c \<Rightarrow> c)\<rparr>)"


text \<open>
  The keys are sorted, and each is looked up again for its point; here the entries are
  sorted by their key. The sort is stable, as \<open>Array.prototype.sort\<close> is.
\<close>

definition prepareChartData :: "mood_item list \<Rightarrow> js_error + point list" where
  "prepareChartData moods =
     (case forEach_moods [] moods of
        Inl e \<Rightarrow> Inl e
      | Inr dailyMoods \<Rightarrow>
          Inr (map (\<lambda>(k, b). chart_point b) (sort_key (\<lambda>(k, b). date_value k) dailyMoods)))"


subsection \<open>Buckets by day, as the specification describes them\<close>

text \<open>
  The date string of an entry, the sum and the number of the ratings of a day, and what
  the specification calls a bucket: the date, the average rounded to two decimals and
  the colour of a chart point, without its \<open>x\<close>.
\<close>

definition item_key :: "mood_item \<Rightarrow> string option" where
  "item_key m = map_option dateString (to_date (item_recordedAt m))"

definition day_total :: "string \<Rightarrow> mood_item list \<Rightarrow> int" where
  "day_total k ms = sum_list (map item_moodValue (filter (\<lambda>m. item_key m = Some k) ms))"

text \<open>
  The sum of the magnitudes of all ratings. While it is at most \<open>2^53\<close>, every sum of
  ratings is an integer that a double holds exactly, in whatever order it is added up.
\<close>

definition abs_total :: "mood_item list \<Rightarrow> int" where
  "abs_total ms = sum_list (map (\<lambda>m. \<bar>item_moodValue m\<bar>) ms)"

definition day_count :: "string \<Rightarrow> mood_item list \<Rightarrow> int" where
  "day_count k ms = int (length (filter (\<lambda>m. item_key m = Some k) ms))"

definition day_view :: "mood_item list \<Rightarrow> string \<Rightarrow> string \<times> rat \<times> string" where
  "day_view ms k =
     (let avgRating = nearest_double (of_int (day_total k ms) / of_int (day_count k ms))
      in (k, toFixed2 avgRating,
          case moodColors (Math_round avgRating) of None \<Rightarrow> ''#CCCCCC'' | Some c \<Rightarrow> c))"

definition bucket_view :: "js_error + point list \<Rightarrow> js_error + (string \<times> rat \<times> string) list" where
  "bucket_view r = map_sum id (map (\<lambda>p. (dateString (point_x p), point_y p, fillColor p))) r"


text \<open>
  The state of the loop: the keys are distinct, and each bucket's \<open>originalDate\<close> is a
  time of its own day.
\<close>

definition keyed :: "(string \<times> daily) list \<Rightarrow> bool" where
  "keyed dm = (distinct (map fst dm) \<and> (\<forall>(k, b) \<in> set dm. dateString (originalDate b) = k))"

section \<open>Concrete instances\<close>

text \<open>
  An environment for running the handlers: two known tokens, one date string that
  parses, the library's \<open>Timestamp.fromDate\<close>, a host in the UTC time zone, and a store
  that rejects an empty update.
\<close>

definition utc_env :: env where
  "utc_env =
     \<lparr>verifyIdToken = (\<lambda>t. if t = ''tok-alice'' then Some ''alice''
                           else if t = ''tok-bob'' then Some ''bob'' else None),
      dateParse = (\<lambda>s. if s = ''2024-01-01T00:00:00.000Z'' then Some 1704067200000 else None),
      tsFromDate = Timestamp_fromDate,
      LocalTZA = (\<lambda>t u. 0),
      emptyUpdateThrows = True\<rparr>"

text \<open>A request with a bearer token, the given body and query fields, and a path id.\<close>

definition mk_request ::
  "string \<Rightarrow> (string \<times> jsval) list \<Rightarrow> (string \<times> jsval) list \<Rightarrow> docid \<Rightarrow> request" where
  "mk_request tok b q i =
     \<lparr>authorization = Some (''Bearer '' @ tok),
      body = (\<lambda>k. case map_of b k of None \<Rightarrow> JUndefined | Some v \<Rightarrow> v),
      query = (\<lambda>k. case map_of q k of None \<Rightarrow> JUndefined | Some v \<Rightarrow> v),
      param_id = i\<rparr>"

definition alice_entry :: mood where
  "alice_entry = \<lparr>userId = ''alice'', moodValue = Fin 3, mood_notes = JStr ''fine'',
                  recordedAt = \<lparr>seconds = 1704067200, nanoseconds = 0\<rparr>\<rparr>"

text \<open>
Requests and stores used to run the handlers.
\<close>

definition req6 :: request where
  "req6 = mk_request ''tok-alice''
            [(''moodValue'', JNum (Fin 6)), (''recordedAt'', JStr ''2024-01-01T00:00:00.000Z'')] [] 0"

definition req_no_date :: request where
  "req_no_date = mk_request ''tok-alice''
                   [(''moodValue'', JNum (Fin 4)), (''notes'', JStr ''ok'')] [] 0"

definition req_rate5 :: request where
  "req_rate5 = mk_request ''tok-alice'' [(''moodValue'', JNum (Fin 5))] [] 1"

definition req_notes_only :: request where
  "req_notes_only = mk_request ''tok-alice'' [(''notes'', JStr ''better'')] [] 1"

definition req_bad_date :: request where
  "req_bad_date = mk_request ''tok-alice''
                    [(''notes'', JStr ''better''), (''recordedAt'', JStr ''garbage'')] [] 1"

definition req_redate :: request where
  "req_redate = mk_request ''tok-alice''
                  [(''moodValue'', JStr ''5''),
                   (''recordedAt'', JStr ''2024-01-01T00:00:00.000Z'')] [] 3"

definition req_recent_huge :: request where
  "req_recent_huge = mk_request ''tok-alice'' [] [(''days'', JStr ''800000'')] 0"

definition req_recent :: request where
  "req_recent = mk_request ''tok-alice'' [] [(''days'', JStr ''1'')] 0"

definition entry_at :: "string \<Rightarrow> int \<Rightarrow> mood" where
  "entry_at uid s = \<lparr>userId = uid, moodValue = Fin 3, mood_notes = JStr '''',
                     recordedAt = \<lparr>seconds = s, nanoseconds = 0\<rparr>\<rparr>"

definition recent_store :: store where
  "recent_store = [(1, entry_at ''alice'' 1704067200), (2, entry_at ''alice'' 1704110400),
                   (3, entry_at ''alice'' 1704190000), (4, entry_at ''bob'' 1704190000)]"

text \<open>
Entries for the chart: two on 2024-01-01 and one on 2024-01-02, and entries at 10:00, 23:30 and 00:30 (UTC) around the midnight between the two days.
\<close>

definition jan1_rating2 :: mood_item where
  "jan1_rating2 = \<lparr>item_recordedAt = RTimestamp 1704103200, item_moodValue = 2\<rparr>"

definition jan1_rating4 :: mood_item where
  "jan1_rating4 = \<lparr>item_recordedAt = RDate (Some 1704150000000), item_moodValue = 4\<rparr>"

definition jan2_rating5 :: mood_item where
  "jan2_rating5 = \<lparr>item_recordedAt = RTimestamp 1704153600, item_moodValue = 5\<rparr>"

definition morning :: mood_item where
  "morning = \<lparr>item_recordedAt = RTimestamp 1704103200, item_moodValue = 4\<rparr>"

definition late_evening :: mood_item where
  "late_evening = \<lparr>item_recordedAt = RTimestamp 1704151800, item_moodValue = 2\<rparr>"

definition huge_rating :: mood_item where
  "huge_rating = \<lparr>item_recordedAt = RTimestamp 1704110400,
                  item_moodValue = 9007199254740991\<rparr>"

definition after_midnight :: mood_item where
  "after_midnight = \<lparr>item_recordedAt = RTimestamp 1704155400, item_moodValue = 4\<rparr>"

section \<open>Basic facts\<close>

lemma autoId_fresh: "autoId st \<notin> doc_ids st"
proof
  assume "autoId st \<in> doc_ids st"
  then have "autoId st \<in> set (0 # map fst st)" by (simp add: doc_ids_def)
  then have "autoId st \<le> Max (set (0 # map fst st))" by (intro Max_ge) auto
  also have "\<dots> = fold max (map fst st) 0" by (rule Max.set_eq_fold)
  finally show False by (simp add: autoId_def)
qed

lemma doc_get_add_new: "doc_get (coll_add st d) (autoId st) = Some d"
proof -
  have "map_of st (autoId st) = None"
    using autoId_fresh [of st] by (simp add: doc_ids_def map_of_eq_None_iff)
  then show ?thesis by (simp add: doc_get_def coll_add_def map_add_def)
qed

lemma verify_body_irrelevant:
  "verifyFirebaseIdToken E (req\<lparr>body := b\<rparr>) = verifyFirebaseIdToken E req"
  by (simp add: verifyFirebaseIdToken_def idToken_def)

lemma verified_token:
  "verifyFirebaseIdToken E req = Inr uid \<Longrightarrow>
     \<exists>tok. idToken req = Some tok \<and> tok \<noteq> [] \<and> verifyIdToken E tok = Some uid"
  by (auto simp: verifyFirebaseIdToken_def split: option.splits if_splits)

lemma verify_mk_request_bob:
  "verifyFirebaseIdToken utc_env (mk_request ''tok-bob'' b q i) = Inr ''bob''"
  by (simp add: verifyFirebaseIdToken_def idToken_def mk_request_def utc_env_def)

lemma verify_mk_request_alice:
  "verifyFirebaseIdToken utc_env (mk_request ''tok-alice'' b q i) = Inr ''alice''"
  by (simp add: verifyFirebaseIdToken_def idToken_def mk_request_def utc_env_def)

lemma req6_facts:
  "verifyFirebaseIdToken utc_env req6 = Inr ''alice''"
  "body req6 ''moodValue'' = JNum (Fin 6)"
  "body req6 ''notes'' = JUndefined"
  "body req6 ''recordedAt'' = JStr ''2024-01-01T00:00:00.000Z''"
  "tsFromDate utc_env (newDate utc_env (JStr ''2024-01-01T00:00:00.000Z''))
     = Some \<lparr>seconds = 1704067200, nanoseconds = 0\<rparr>"
  by (simp_all add: req6_def verify_mk_request_alice)
     (simp_all add: mk_request_def utc_env_def timeClip_def Timestamp_fromDate_def)

lemma req_no_date_facts:
  "verifyFirebaseIdToken utc_env req_no_date = Inr ''alice''"
  "body req_no_date ''moodValue'' = JNum (Fin 4)"
  "body req_no_date ''notes'' = JStr ''ok''"
  "body req_no_date ''recordedAt'' = JUndefined"
  by (simp_all add: req_no_date_def verify_mk_request_alice) (simp_all add: mk_request_def)

lemma req_rate5_facts:
  "verifyFirebaseIdToken utc_env req_rate5 = Inr ''alice''"
  "body req_rate5 ''moodValue'' = JNum (Fin 5)"
  "body req_rate5 ''notes'' = JUndefined"
  "body req_rate5 ''recordedAt'' = JUndefined"
  "param_id req_rate5 = 1"
  by (simp_all add: req_rate5_def verify_mk_request_alice) (simp_all add: mk_request_def)

lemma req_notes_only_facts:
  "verifyFirebaseIdToken utc_env req_notes_only = Inr ''alice''"
  "body req_notes_only ''moodValue'' = JUndefined"
  "body req_notes_only ''notes'' = JStr ''better''"
  "body req_notes_only ''recordedAt'' = JUndefined"
  "param_id req_notes_only = 1"
  by (simp_all add: req_notes_only_def verify_mk_request_alice) (simp_all add: mk_request_def)

lemma req_bad_date_facts:
  "verifyFirebaseIdToken utc_env req_bad_date = Inr ''alice''"
  "body req_bad_date ''moodValue'' = JUndefined"
  "body req_bad_date ''notes'' = JStr ''better''"
  "body req_bad_date ''recordedAt'' = JStr ''garbage''"
  "param_id req_bad_date = 1"
  by (simp_all add: req_bad_date_def verify_mk_request_alice) (simp_all add: mk_request_def)

lemma req_redate_facts:
  "verifyFirebaseIdToken utc_env req_redate = Inr ''alice''"
  "body req_redate ''moodValue'' = JStr ''5''"
  "body req_redate ''notes'' = JUndefined"
  "body req_redate ''recordedAt'' = JStr ''2024-01-01T00:00:00.000Z''"
  "param_id req_redate = 3"
  "parseInt (JStr ''5'') = Fin 5"
  by (simp_all add: req_redate_def verify_mk_request_alice)
     (simp_all add: mk_request_def parseInt_string_def is_ws_def
        is_digit_def digit_of_def digits_value_def double_of_int_def)

lemma utc_env_tsFromDate_None:
  "tsFromDate utc_env (newDate utc_env (JStr ''garbage'')) = None"
  by (simp add: utc_env_def Timestamp_fromDate_def)

lemma req_recent_facts:
  "verifyFirebaseIdToken utc_env req_recent = Inr ''alice''"
  "query req_recent ''days'' = JStr ''1''"
  "parseInt_string ''1'' = Fin 1"
  "tsFromDate utc_env = Timestamp_fromDate"
  "1704110400000 = UTC utc_env (LocalTime utc_env 1704196800000 - 1 * msPerDay)"
  by (simp_all add: req_recent_def verify_mk_request_alice)
     (simp_all add: mk_request_def utc_env_def parseInt_string_def is_ws_def
        is_digit_def digit_of_def digits_value_def double_of_int_def UTC_def LocalTime_def
        msPerDay_def)

lemma req_recent_huge_facts:
  "verifyFirebaseIdToken utc_env req_recent_huge = Inr ''alice''"
  "query req_recent_huge ''days'' = JStr ''800000''"
  "parseInt_string ''800000'' = Fin 800000"
  by (simp_all add: req_recent_huge_def verify_mk_request_alice)
     (simp_all add: mk_request_def parseInt_string_def is_ws_def
        is_digit_def digit_of_def digits_value_def double_of_int_def)

lemma rating_in_range_add:
  "rating_in_range (coll_add st d) \<longleftrightarrow> rating_in_range st \<and> valid_rating (moodValue d)"
  by (simp add: rating_in_range_def coll_add_def)

lemma rating_in_range_delete: "rating_in_range st \<Longrightarrow> rating_in_range (doc_delete st i)"
  by (auto simp: rating_in_range_def doc_delete_def list_all_iff)

lemma rating_in_range_update:
  "rating_in_range st \<Longrightarrow> (\<forall>v. u_moodValue u = Some v \<longrightarrow> valid_rating v) \<Longrightarrow>
     rating_in_range (doc_update st i u)"
  by (auto simp: rating_in_range_def doc_update_def list_all_iff apply_update_def
           split: option.splits if_splits)

lemma recent_query_mset:
  "mset (recent_query st uid cutoff) =
     filter_mset (\<lambda>(i, d). userId d = uid \<and> ts_key cutoff \<le> ts_key (recordedAt d)) (mset st)"
  by (simp add: recent_query_def)

lemma lex_fst_le: "(a, i) \<le> (b, j) \<Longrightarrow> a \<le> b" for a b :: "'a::order"
  by (auto simp: less_eq_prod_def)

lemma recent_query_descending:
  "sorted_wrt (\<lambda>a b. ts_key (recordedAt (snd b)) \<le> ts_key (recordedAt (snd a)))
     (recent_query st uid cutoff)"
proof -
  let ?k = "\<lambda>(i :: docid, d). (ts_key (recordedAt d), i)"
  let ?xs = "sort_key ?k (filter (\<lambda>(i, d). userId d = uid \<and> ts_key cutoff \<le> ts_key (recordedAt d)) st)"
  have "sorted (map ?k ?xs)" by (rule sorted_sort_key)
  then have "sorted_wrt (\<lambda>a b. ?k a \<le> ?k b) ?xs"
    by (simp add: sorted_map)
  moreover have "ts_key (recordedAt (snd a)) \<le> ts_key (recordedAt (snd b))"
    if "?k a \<le> ?k b" for a b
    using that by (cases a; cases b) (auto dest: lex_fst_le)
  ultimately have
    "sorted_wrt (\<lambda>a b. ts_key (recordedAt (snd a)) \<le> ts_key (recordedAt (snd b))) ?xs"
    by (rule sorted_wrt_mono_rel [rotated]) blast
  then show ?thesis
    by (simp add: recent_query_def sorted_wrt_rev)
qed

lemma recent_store_result:
  "recent_query recent_store ''alice'' \<lparr>seconds = 1704110400, nanoseconds = 0\<rparr>
     = [(3, entry_at ''alice'' 1704190000), (2, entry_at ''alice'' 1704110400)]"
  by (simp add: recent_query_def recent_store_def entry_at_def ts_key_def)

lemma doc_get_update:
  "doc_get (doc_update st i u) j =
     (if j = i then map_option (apply_update u) (doc_get st i) else doc_get st j)"
  by (induction st) (auto simp: doc_get_def doc_update_def)

lemma router_put_owner:
  assumes "verifyFirebaseIdToken E req = Inr caller"
    and "doc_get st (param_id req) = Some e"
    and "userId e = caller"
  shows "router_put E req st =
           (if (body req ''recordedAt'' = JUndefined
                  \<or> tsFromDate E (newDate E (body req ''recordedAt'')) \<noteq> None)
               \<and> \<not> (body req ''moodValue'' = JUndefined \<and> body req ''notes'' = JUndefined
                      \<and> body req ''recordedAt'' = JUndefined \<and> emptyUpdateThrows E)
            then (\<lparr>status = 200, json = Message ''Mood entry updated successfully.''\<rparr>,
                  doc_update st (param_id req)
                    \<lparr>u_moodValue = (if body req ''moodValue'' \<noteq> JUndefined
                                      then Some (parseInt (body req ''moodValue'')) else None),
                     u_notes = (if body req ''notes'' \<noteq> JUndefined
                                then Some (body req ''notes'') else None),
                     u_recordedAt = (if body req ''recordedAt'' \<noteq> JUndefined
                                     then tsFromDate E (newDate E (body req ''recordedAt''))
                                     else None)\<rparr>)
            else (\<lparr>status = 500,
                    json = Error ''Internal Server Error while updating mood.''\<rparr>, st))"
  using assms
  by (auto simp: router_put_def put_updateData_def is_empty_update_def Let_def
           simp del: newDate.simps)

lemma doc_update_empty: "is_empty_update u \<Longrightarrow> doc_update st i u = st"
proof -
  assume "is_empty_update u"
  then have "apply_update u d = d" for d
    by (simp add: is_empty_update_def apply_update_def)
  then have "(\<lambda>(j, d). if j = i then (j, apply_update u d) else (j, d)) = (\<lambda>x. x)"
    by auto
  then show ?thesis by (simp add: doc_update_def)
qed

section \<open>Facts about the calendar and the chart data\<close>

lemma InLeapYear_01: "InLeapYear y = 0 \<or> InLeapYear y = 1"
  by (simp add: InLeapYear_def)

lemma year_up_spec: "d < DayFromYear (year_up d y + 1)"
proof (induction d y rule: year_up.induct)
  case (1 d y)
  show ?case
  proof (cases "DayFromYear (y + 1) \<le> d")
    case True
    then show ?thesis using "1.IH" by (subst year_up.simps) simp
  next
    case False
    then show ?thesis by (subst year_up.simps) simp
  qed
qed

lemma year_down_spec:
  "DayFromYear (year_down d y) \<le> d \<and> (d < DayFromYear (y + 1) \<longrightarrow> d < DayFromYear (year_down d y + 1))"
proof (induction d y rule: year_down.induct)
  case (1 d y)
  show ?case
  proof (cases "d < DayFromYear y")
    case True
    then show ?thesis using "1.IH" by (subst (1 2) year_down.simps) simp
  next
    case False
    then show ?thesis by (subst (1 2) year_down.simps) simp
  qed
qed

lemma YearFromDay_spec:
  "DayFromYear (YearFromDay d) \<le> d" "d < DayFromYear (YearFromDay d + 1)"
  using year_down_spec [of d "year_up d (1970 + d div 365)"] year_up_spec [of d "1970 + d div 365"]
  by (simp_all add: YearFromDay_def)

lemma DayWithinYear_range:
  "0 \<le> DayWithinYear d" "DayWithinYear d < 365 + InLeapYear (YearFromDay d)"
  using YearFromDay_spec [of d] DayFromYear_Suc [of "YearFromDay d"]
  by (simp_all add: DayWithinYear_def)

lemma month_date_facts:
  "0 \<le> MonthFromDay d" "MonthFromDay d \<le> 11"
  "1 \<le> DateFromDay d"
  "DateFromDay d \<le> DaysInMonth (InLeapYear (YearFromDay d)) (MonthFromDay d)"
  "monthStart (InLeapYear (YearFromDay d)) (MonthFromDay d) + DateFromDay d - 1 = DayWithinYear d"
  using DayWithinYear_range [of d] InLeapYear_01 [of "YearFromDay d"]
  by (auto simp: MonthFromDay_def DateFromDay_def monthStart_def DaysInMonth_def Let_def)

lemma MakeDay_roundtrip:
  "MakeDay (YearFromDay d) (MonthFromDay d) (DateFromDay d) = d"
  using month_date_facts(5) [of d] by (simp add: MakeDay_def DayWithinYear_def)

lemma div_bounds:
  fixes a n :: int
  assumes "0 < n"
  shows "n * (a div n) \<le> a \<and> a < n * (a div n) + n"
proof -
  have "n * (a div n) + a mod n = a" by simp
  moreover have "0 \<le> a mod n" "a mod n < n" using assms by simp_all
  ultimately show ?thesis by linarith
qed

lemma DayFromYear_atoms:
  "\<exists>q4 q100 q400. DayFromYear y = 365 * y - 719050 + q4 - q100 + q400
      \<and> 4 * q4 \<le> y - 1969 \<and> y - 1969 < 4 * q4 + 4
      \<and> 100 * q100 \<le> y - 1901 \<and> y - 1901 < 100 * q100 + 100
      \<and> 400 * q400 \<le> y - 1601 \<and> y - 1601 < 400 * q400 + 400"
proof -
  have e: "DayFromYear y =
             365 * y - 719050 + (y - 1969) div 4 - (y - 1901) div 100 + (y - 1601) div 400"
    by (simp add: DayFromYear_def)
  have b4: "4 * ((y - 1969) div 4) \<le> y - 1969 \<and> y - 1969 < 4 * ((y - 1969) div 4) + 4"
    by (rule div_bounds) simp
  have b100: "100 * ((y - 1901) div 100) \<le> y - 1901
                \<and> y - 1901 < 100 * ((y - 1901) div 100) + 100"
    by (rule div_bounds) simp
  have b400: "400 * ((y - 1601) div 400) \<le> y - 1601
                \<and> y - 1601 < 400 * ((y - 1601) div 400) + 400"
    by (rule div_bounds) simp
  from e b4 b100 b400 show ?thesis by blast
qed

lemma DayFromYear_large: "1000000 \<le> y \<Longrightarrow> 100000000 < DayFromYear y"
proof -
  assume y: "1000000 \<le> y"
  obtain q4 q100 q400 where
    "DayFromYear y = 365 * y - 719050 + q4 - q100 + q400"
    "4 * q4 \<le> y - 1969" "y - 1969 < 4 * q4 + 4"
    "100 * q100 \<le> y - 1901" "y - 1901 < 100 * q100 + 100"
    "400 * q400 \<le> y - 1601" "y - 1601 < 400 * q400 + 400"
    using DayFromYear_atoms [of y] by blast
  with y show ?thesis by linarith
qed

lemma DayFromYear_small: "y \<le> - 999999 \<Longrightarrow> DayFromYear y < - 100000000"
proof -
  assume y: "y \<le> - 999999"
  obtain q4 q100 q400 where
    "DayFromYear y = 365 * y - 719050 + q4 - q100 + q400"
    "4 * q4 \<le> y - 1969" "y - 1969 < 4 * q4 + 4"
    "100 * q100 \<le> y - 1901" "y - 1901 < 100 * q100 + 100"
    "400 * q400 \<le> y - 1601" "y - 1601 < 400 * q400 + 400"
    using DayFromYear_atoms [of y] by blast
  with y show ?thesis by linarith
qed

lemma YearFromDay_bounds:
  assumes "\<bar>d\<bar> \<le> 100000000"
  shows "- 1000000 < YearFromDay d" "YearFromDay d < 1000000"
proof -
  show "YearFromDay d < 1000000"
  proof (rule ccontr)
    assume "\<not> YearFromDay d < 1000000"
    then have "100000000 < DayFromYear (YearFromDay d)" by (intro DayFromYear_large) simp
    with YearFromDay_spec(1) [of d] assms show False by linarith
  qed
  show "- 1000000 < YearFromDay d"
  proof (rule ccontr)
    assume "\<not> - 1000000 < YearFromDay d"
    then have "DayFromYear (YearFromDay d + 1) < - 100000000" by (intro DayFromYear_small) simp
    with YearFromDay_spec(2) [of d] assms show False by linarith
  qed
qed

lemma digit_of_digit_char: "k < 10 \<Longrightarrow> digit_of (digit_char k) = Some k"
  by (simp add: digit_of_def digit_char_def)

lemma is_digit_digit_char: "k < 10 \<Longrightarrow> is_digit 10 (digit_char k)"
  by (simp add: is_digit_def digit_of_digit_char)

lemma digits_value_Nil: "digits_value r [] = 0"
  by (simp add: digits_value_def)

lemma digits_value_snoc:
  "digits_value r (ds @ [c]) = digits_value r ds * int r + int (the (digit_of c))"
  by (simp add: digits_value_def)

lemma digits_value_append:
  "digits_value r (xs @ ys) = digits_value r xs * int r ^ length ys + digits_value r ys"
proof (induction ys rule: rev_induct)
  case Nil
  show ?case by (simp add: digits_value_Nil)
next
  case (snoc c ys)
  have "digits_value r (xs @ ys @ [c]) = digits_value r ((xs @ ys) @ [c])" by simp
  also have "\<dots> = digits_value r (xs @ ys) * int r + int (the (digit_of c))"
    by (rule digits_value_snoc)
  finally show ?case
    by (simp add: snoc.IH digits_value_snoc algebra_simps)
qed

lemma int_div_mod: "int (n div k) * int k + int (n mod k) = int n"
proof -
  have "int (n div k * k + n mod k) = int n" by (simp only: div_mult_mod_eq)
  then show ?thesis by (simp only: of_nat_add of_nat_mult)
qed

lemma pad2_digits:
  assumes "n < 100"
  shows "list_all (is_digit 10) (pad2 n)" "digits_value 10 (pad2 n) = int n" "length (pad2 n) = 2"
proof -
  have d: "n div 10 < 10" using assms by simp
  then have m: "n div 10 mod 10 = n div 10" by simp
  show "list_all (is_digit 10) (pad2 n)"
    using d by (simp add: pad2_def m is_digit_digit_char)
  have "digits_value 10 (pad2 n) = int (n div 10) * 10 + int (n mod 10)"
    using d by (simp add: pad2_def m digits_value_def digit_of_digit_char)
  also have "\<dots> = int n" using int_div_mod [of n 10] by simp
  finally show "digits_value 10 (pad2 n) = int n" .
  show "length (pad2 n) = 2" by (simp add: pad2_def)
qed

lemma pad4_digits:
  assumes "n < 10000"
  shows "list_all (is_digit 10) (pad4 n)" "digits_value 10 (pad4 n) = int n" "length (pad4 n) = 4"
proof -
  have a: "n div 100 < 100" using assms by simp
  have b: "n mod 100 < 100" by simp
  show "list_all (is_digit 10) (pad4 n)"
    by (simp add: pad4_def pad2_digits(1) [OF a] pad2_digits(1) [OF b])
  have "digits_value 10 (pad4 n) = int (n div 100) * 100 + int (n mod 100)"
    by (simp add: pad4_def digits_value_append pad2_digits(2,3) [OF a] pad2_digits(2,3) [OF b])
  also have "\<dots> = int n" using int_div_mod [of n 100] by simp
  finally show "digits_value 10 (pad4 n) = int n" .
  show "length (pad4 n) = 4"
    by (simp add: pad4_def pad2_digits(3) [OF a] pad2_digits(3) [OF b])
qed

lemma pad6_digits:
  assumes "n < 1000000"
  shows "list_all (is_digit 10) (pad6 n)" "digits_value 10 (pad6 n) = int n" "length (pad6 n) = 6"
proof -
  have a: "n div 10000 < 100" using assms by simp
  have b: "n mod 10000 < 10000" by simp
  show "list_all (is_digit 10) (pad6 n)"
    by (simp add: pad6_def pad2_digits(1) [OF a] pad4_digits(1) [OF b])
  have "digits_value 10 (pad6 n) = int (n div 10000) * 10000 + int (n mod 10000)"
    by (simp add: pad6_def digits_value_append pad2_digits(2,3) [OF a] pad4_digits(2,3) [OF b])
  also have "\<dots> = int n" using int_div_mod [of n 10000] by simp
  finally show "digits_value 10 (pad6 n) = int n" .
  show "length (pad6 n) = 6"
    by (simp add: pad6_def pad2_digits(3) [OF a] pad4_digits(3) [OF b])
qed

lemma read_digits_pad:
  "n < 100 \<Longrightarrow> read_digits (pad2 n) = Some (int n)"
  "n < 10000 \<Longrightarrow> read_digits (pad4 n) = Some (int n)"
  "n < 1000000 \<Longrightarrow> read_digits (pad6 n) = Some (int n)"
proof -
  show "read_digits (pad2 n) = Some (int n)" if "n < 100"
    using pad2_digits [OF that] by (auto simp: read_digits_def)
  show "read_digits (pad4 n) = Some (int n)" if "n < 10000"
    using pad4_digits [OF that] by (auto simp: read_digits_def)
  show "read_digits (pad6 n) = Some (int n)" if "n < 1000000"
    using pad6_digits [OF that] by (auto simp: read_digits_def)
qed

lemma parse_assembled_4:
  assumes "length Y = 4" "length M = 2" "length D = 2"
  shows "parseIsoDate (Y @ ''-'' @ M @ ''-'' @ D) = parse_ymd 1 Y M D"
  using assms by (simp add: parseIsoDate_def nth_append)

lemma parse_assembled_6:
  assumes "length Y = 6" "length M = 2" "length D = 2" "c = CHR ''+'' \<or> c = CHR ''-''"
    and "c # Y \<noteq> ''-000000''"
  shows "parseIsoDate ((c # Y) @ ''-'' @ M @ ''-'' @ D)
           = parse_ymd (if c = CHR ''-'' then - 1 else 1) Y M D"
  using assms by (simp add: parseIsoDate_def nth_append)

lemma parse_ymd_fields:
  assumes "read_digits Y = Some yv" "read_digits M = Some (m + 1)" "read_digits D = Some dt"
    and "0 \<le> m" "m \<le> 11" "1 \<le> dt" "dt \<le> DaysInMonth (InLeapYear (sg * yv)) m"
  shows "parse_ymd sg Y M D = Some (MakeDay (sg * yv) m dt)"
  using assms by (simp add: parse_ymd_def)

lemma parseIsoDate_isoDate:
  assumes "\<bar>d\<bar> \<le> 100000000"
  shows "parseIsoDate (isoDate d) = Some d"
proof -
  define y m dt where "y = YearFromDay d" and "m = MonthFromDay d" and "dt = DateFromDay d"
  have mf: "0 \<le> m" "m \<le> 11" "1 \<le> dt" "dt \<le> DaysInMonth (InLeapYear y) m"
    using month_date_facts [of d] by (simp_all add: y_def m_def dt_def)
  have dt31: "dt \<le> 31"
    using mf(4) InLeapYear_01 [of y] by (auto simp: DaysInMonth_def split: if_splits)
  have yb: "- 1000000 < y" "y < 1000000"
    using YearFromDay_bounds [OF assms] by (simp_all add: y_def)
  have mk: "MakeDay y m dt = d"
    using MakeDay_roundtrip [of d] by (simp add: y_def m_def dt_def)
  let ?M = "pad2 (nat (m + 1))" and ?D = "pad2 (nat dt)"
  have M: "read_digits ?M = Some (m + 1)" "length ?M = 2"
    using mf read_digits_pad(1) [of "nat (m + 1)"] pad2_digits(3) [of "nat (m + 1)"] by simp_all
  have D: "read_digits ?D = Some dt" "length ?D = 2"
    using mf dt31 read_digits_pad(1) [of "nat dt"] pad2_digits(3) [of "nat dt"] by simp_all
  have iso: "isoDate d = yearString y @ ''-'' @ ?M @ ''-'' @ ?D"
    by (simp add: isoDate_def y_def m_def dt_def)
  consider (four) "0 \<le> y" "y \<le> 9999" | (neg) "y < 0" | (big) "9999 < y" by linarith
  then show ?thesis
  proof cases
    case four
    let ?Y = "pad4 (nat y)"
    have Y: "read_digits ?Y = Some y" "length ?Y = 4"
      using four read_digits_pad(2) [of "nat y"] pad4_digits(3) [of "nat y"] by simp_all
    have "parseIsoDate (isoDate d) = parse_ymd 1 ?Y ?M ?D"
      unfolding iso using four parse_assembled_4 [OF Y(2) M(2) D(2)]
      by (simp add: yearString_def)
    also have "\<dots> = Some (MakeDay (1 * y) m dt)"
      using Y(1) M(1) D(1) mf by (intro parse_ymd_fields) simp_all
    finally show ?thesis by (simp add: mk)
  next
    case neg
    let ?Y = "pad6 (nat (- y))"
    have Y: "read_digits ?Y = Some (- y)" "length ?Y = 6" "digits_value 10 ?Y = - y"
      using neg yb read_digits_pad(3) [of "nat (- y)"] pad6_digits(2,3) [of "nat (- y)"]
      by simp_all
    have nz: "CHR ''-'' # ?Y \<noteq> ''-000000''"
    proof
      assume "CHR ''-'' # ?Y = ''-000000''"
      then have "?Y = ''000000''" by simp
      then have "digits_value 10 ?Y = digits_value 10 ''000000''" by simp
      also have "\<dots> = 0" by (simp add: digits_value_def digit_of_def)
      finally show False using Y(3) neg by simp
    qed
    have ys: "yearString y = CHR ''-'' # ?Y" using neg by (simp add: yearString_def)
    have "parseIsoDate (isoDate d) = parse_ymd (- 1) ?Y ?M ?D"
      unfolding iso ys using parse_assembled_6 [OF Y(2) M(2) D(2) _ nz] by simp
    also have "\<dots> = Some (MakeDay (- 1 * (- y)) m dt)"
      using Y(1) M(1) D(1) mf by (intro parse_ymd_fields) simp_all
    finally show ?thesis by (simp add: mk)
  next
    case big
    let ?Y = "pad6 (nat y)"
    have Y: "read_digits ?Y = Some y" "length ?Y = 6"
      using big yb read_digits_pad(3) [of "nat y"] pad6_digits(3) [of "nat y"] by simp_all
    have nz: "CHR ''+'' # ?Y \<noteq> ''-000000''" by simp
    have ys: "yearString y = CHR ''+'' # ?Y" using big by (simp add: yearString_def)
    have "parseIsoDate (isoDate d) = parse_ymd 1 ?Y ?M ?D"
      unfolding iso ys using parse_assembled_6 [OF Y(2) M(2) D(2) _ nz] by simp
    also have "\<dots> = Some (MakeDay (1 * y) m dt)"
      using Y(1) M(1) D(1) mf by (intro parse_ymd_fields) simp_all
    finally show ?thesis by (simp add: mk)
  qed
qed

lemma insort_key_map: "insort_key f (g a) (map g ys) = map g (insort_key (\<lambda>x. f (g x)) a ys)"
  by (induction ys) simp_all

lemma sort_key_map: "sort_key f (map g xs) = map g (sort_key (\<lambda>x. f (g x)) xs)"
  by (induction xs) (simp_all add: insort_key_map)

lemma Day_bound: "\<bar>t\<bar> \<le> 8640000000000000 \<Longrightarrow> \<bar>Day t\<bar> \<le> 100000000"
proof -
  assume a: "\<bar>t\<bar> \<le> 8640000000000000"
  have b: "86400000 * (t div 86400000) \<le> t \<and> t < 86400000 * (t div 86400000) + 86400000"
    by (rule div_bounds) simp
  define q where "q = t div 86400000"
  from a b have "\<bar>q\<bar> \<le> 100000000" unfolding q_def [symmetric] by linarith
  then show ?thesis by (simp add: Day_def msPerDay_def q_def)
qed

lemma to_date_clipped: "to_date r = Some t \<Longrightarrow> \<bar>t\<bar> \<le> 8640000000000000"
  by (cases r) (auto simp: timeClip_def split: option.splits if_splits)

lemma date_value_dateString:
  "\<bar>t\<bar> \<le> 8640000000000000 \<Longrightarrow> date_value (dateString t) = Day t * msPerDay"
  by (simp add: date_value_def dateString_def parseIsoDate_isoDate Day_bound)

lemma dateString_eq_iff:
  assumes "\<bar>t1\<bar> \<le> 8640000000000000" "\<bar>t2\<bar> \<le> 8640000000000000"
  shows "dateString t1 = dateString t2 \<longleftrightarrow> Day t1 = Day t2"
proof
  assume "dateString t1 = dateString t2"
  then have "parseIsoDate (isoDate (Day t1)) = parseIsoDate (isoDate (Day t2))"
    by (simp add: dateString_def)
  then show "Day t1 = Day t2"
    using assms by (simp add: parseIsoDate_isoDate Day_bound)
next
  assume "Day t1 = Day t2"
  then show "dateString t1 = dateString t2" by (simp add: dateString_def)
qed

lemma add_mood_error:
  "add_mood dm m = Inl e \<longleftrightarrow> item_key m = None"
  by (cases e) (auto simp: add_mood_def item_key_def Let_def split: option.splits)

lemma map_of_bump:
  "map_of (map (\<lambda>(k', b). if k' = k then (k', f b) else (k', b)) dm) k'' =
     (if k'' = k then map_option f (map_of dm k) else map_of dm k'')"
  by (induction dm) auto

lemma map_fst_bump:
  "map fst (map (\<lambda>(k', b). if k' = k then (k', f b) else (k', b)) dm) = map fst dm"
  by (induction dm) auto

lemma add_mood_step:
  assumes "add_mood dm m = Inr dm'"
  obtains t where "to_date (item_recordedAt m) = Some t" "item_key m = Some (dateString t)"
    "map fst dm' = (if map_of dm (dateString t) = None then map fst dm @ [dateString t]
                    else map fst dm)"
    "\<And>k. map_of dm' k =
       (if k = dateString t
        then Some (case map_of dm k of
                     None \<Rightarrow> \<lparr>totalRating = double_of_int (item_moodValue m), count = 1,
                               originalDate = t\<rparr>
                   | Some b \<Rightarrow> b\<lparr>totalRating := double_of_int (totalRating b + item_moodValue m),
                                 count := count b + 1\<rparr>)
        else map_of dm k)"
proof -
  from assms obtain t where t: "to_date (item_recordedAt m) = Some t"
    by (auto simp: add_mood_def split: option.splits)
  let ?k = "dateString t"
  let ?f = "\<lambda>b. b\<lparr>totalRating := double_of_int (totalRating b + item_moodValue m),
                   count := count b + 1\<rparr>"
  let ?dm1 = "if map_of dm ?k = None
              then dm @ [(?k, \<lparr>totalRating = 0, count = 0, originalDate = t\<rparr>)] else dm"
  have dm': "dm' = map (\<lambda>(k', b). if k' = ?k then (k', ?f b) else (k', b)) ?dm1"
    using assms t by (simp add: add_mood_def Let_def)
  have 1: "item_key m = Some ?k" using t by (simp add: item_key_def)
  have 2: "map fst dm' = (if map_of dm ?k = None then map fst dm @ [?k] else map fst dm)"
    unfolding dm' map_fst_bump by simp
  have 3: "map_of dm' k =
       (if k = ?k
        then Some (case map_of dm k of
                     None \<Rightarrow> \<lparr>totalRating = double_of_int (item_moodValue m), count = 1,
                               originalDate = t\<rparr>
                   | Some b \<Rightarrow> ?f b)
        else map_of dm k)" for k
    unfolding dm' map_of_bump by (auto simp: map_add_def split: option.splits)
  from t 1 2 3 show ?thesis by (rule that)
qed

lemma forEach_moods_error:
  "(\<exists>e. forEach_moods dm ms = Inl e) \<longleftrightarrow> (\<exists>m \<in> set ms. item_key m = None)"
proof (induction ms arbitrary: dm)
  case Nil
  show ?case by simp
next
  case (Cons m ms)
  show ?case
  proof (cases "add_mood dm m")
    case (Inl e)
    then show ?thesis using add_mood_error [of dm m e] by auto
  next
    case (Inr dm')
    have "item_key m \<noteq> None"
    proof
      assume "item_key m = None"
      then have "add_mood dm m = Inl RangeError" by (simp add: add_mood_error)
      with Inr show False by simp
    qed
    then show ?thesis using Inr Cons.IH [of dm'] by auto
  qed
qed

lemma day_total_Cons:
  "day_total k (m # ms) = (if item_key m = Some k then item_moodValue m else 0) + day_total k ms"
  by (simp add: day_total_def)

lemma day_count_Cons:
  "day_count k (m # ms) = (if item_key m = Some k then 1 else 0) + day_count k ms"
  by (simp add: day_count_def)

lemma keyed_lookup: "keyed dm \<Longrightarrow> map_of dm k = Some b \<Longrightarrow> dateString (originalDate b) = k"
  by (auto simp: keyed_def dest: map_of_SomeD)

lemma add_mood_keyed:
  assumes "add_mood dm m = Inr dm1" "keyed dm"
  shows "keyed dm1"
proof -
  from add_mood_step [OF assms(1)] obtain t where
    keys: "map fst dm1 = (if map_of dm (dateString t) = None then map fst dm @ [dateString t]
                          else map fst dm)"
    and look: "\<And>k. map_of dm1 k =
       (if k = dateString t
        then Some (case map_of dm k of
                     None \<Rightarrow> \<lparr>totalRating = double_of_int (item_moodValue m), count = 1,
                               originalDate = t\<rparr>
                   | Some b \<Rightarrow> b\<lparr>totalRating := double_of_int (totalRating b + item_moodValue m),
                                 count := count b + 1\<rparr>)
        else map_of dm k)"
    by blast
  have d: "distinct (map fst dm1)"
    using assms(2) unfolding keys by (auto simp: keyed_def map_of_eq_None_iff)
  have "dateString (originalDate b) = k" if "(k, b) \<in> set dm1" for k b
  proof -
    from that d have l: "map_of dm1 k = Some b" by simp
    show ?thesis
    proof (cases "k = dateString t")
      case True
      with l look [of k] show ?thesis
        using keyed_lookup [OF assms(2), of k] by (auto split: option.splits)
    next
      case False
      with l look [of k] show ?thesis
        using keyed_lookup [OF assms(2), of k] by auto
    qed
  qed
  with d show ?thesis by (auto simp: keyed_def)
qed

lemma double_of_int_exact: "\<bar>n\<bar> \<le> 9007199254740992 \<Longrightarrow> double_of_int n = n"
  by (simp add: double_of_int_def)

lemma abs_total_Cons: "abs_total (m # ms) = \<bar>item_moodValue m\<bar> + abs_total ms"
  by (simp add: abs_total_def)

lemma abs_total_nonneg: "0 \<le> abs_total ms"
  by (induction ms) (simp_all add: abs_total_def)

lemma forEach_moods_result:
  "forEach_moods dm ms = Inr dm' \<Longrightarrow> keyed dm \<Longrightarrow>
   abs_total ms \<le> 9007199254740992 \<Longrightarrow>
   (\<forall>k b. map_of dm k = Some b \<longrightarrow> \<bar>totalRating b\<bar> + abs_total ms \<le> 9007199254740992) \<Longrightarrow>
     keyed dm'
     \<and> set (map fst dm') = set (map fst dm) \<union> {k. \<exists>m \<in> set ms. item_key m = Some k}
     \<and> (\<forall>k b'. map_of dm' k = Some b' \<longrightarrow>
           totalRating b' = (case map_of dm k of None \<Rightarrow> 0 | Some b \<Rightarrow> totalRating b)
                              + day_total k ms
         \<and> count b' = (case map_of dm k of None \<Rightarrow> 0 | Some b \<Rightarrow> count b) + day_count k ms)"
proof (induction ms arbitrary: dm)
  case Nil
  then show ?case by (simp add: day_total_def day_count_def)
next
  case (Cons m ms)
  let ?v = "item_moodValue m"
  from Cons.prems(1) obtain dm1 where
    a: "add_mood dm m = Inr dm1" and f: "forEach_moods dm1 ms = Inr dm'"
    by (auto split: sum.splits)
  have k1: "keyed dm1" using a Cons.prems(2) by (rule add_mood_keyed)
  from add_mood_step [OF a] obtain t where
    key: "item_key m = Some (dateString t)"
    and keys: "map fst dm1 = (if map_of dm (dateString t) = None then map fst dm @ [dateString t]
                          else map fst dm)"
    and look0: "\<And>k. map_of dm1 k =
       (if k = dateString t
        then Some (case map_of dm k of
                     None \<Rightarrow> \<lparr>totalRating = double_of_int (item_moodValue m), count = 1,
                               originalDate = t\<rparr>
                   | Some b \<Rightarrow> b\<lparr>totalRating := double_of_int (totalRating b + item_moodValue m),
                                 count := count b + 1\<rparr>)
        else map_of dm k)"
    by blast
  have bound: "\<bar>?v\<bar> + abs_total ms \<le> 9007199254740992"
    using Cons.prems(3) by (simp add: abs_total_Cons)
  have nn: "0 \<le> abs_total ms" by (rule abs_total_nonneg)
  have e1: "double_of_int ?v = ?v"
    using bound nn by (intro double_of_int_exact) linarith
  have e2: "double_of_int (totalRating b + ?v) = totalRating b + ?v"
    if "map_of dm k = Some b" for k b
  proof -
    from Cons.prems(4) that have "\<bar>totalRating b\<bar> + abs_total (m # ms) \<le> 9007199254740992"
      by blast
    then have "\<bar>totalRating b + ?v\<bar> \<le> 9007199254740992"
      using nn by (simp add: abs_total_Cons)
    then show ?thesis by (rule double_of_int_exact)
  qed
  have look: "map_of dm1 k =
       (if k = dateString t
        then Some (case map_of dm k of
                     None \<Rightarrow> \<lparr>totalRating = ?v, count = 1, originalDate = t\<rparr>
                   | Some b \<Rightarrow> b\<lparr>totalRating := totalRating b + ?v, count := count b + 1\<rparr>)
        else map_of dm k)" for k
    unfolding look0 [of k] using e1 e2 [of k] by (auto split: option.splits)
  have p3: "abs_total ms \<le> 9007199254740992" using bound by linarith
  have p4: "\<forall>k b. map_of dm1 k = Some b \<longrightarrow> \<bar>totalRating b\<bar> + abs_total ms \<le> 9007199254740992"
  proof (intro allI impI)
    fix k b
    assume l: "map_of dm1 k = Some b"
    show "\<bar>totalRating b\<bar> + abs_total ms \<le> 9007199254740992"
    proof (cases "map_of dm k")
      case None
      with l look [of k] have "totalRating b = ?v" by (auto split: if_splits)
      with bound show ?thesis by simp
    next
      case (Some b0)
      with Cons.prems(4) have b0: "\<bar>totalRating b0\<bar> + (\<bar>?v\<bar> + abs_total ms) \<le> 9007199254740992"
        by (simp add: abs_total_Cons)
      from l look [of k] Some have "totalRating b = totalRating b0 + ?v \<or> totalRating b = totalRating b0"
        by (auto split: if_splits)
      with b0 show ?thesis by linarith
    qed
  qed
  note IH = Cons.IH [OF f k1 p3 p4]
  have s1: "set (map fst dm1) = set (map fst dm) \<union> {dateString t}"
    unfolding keys by (auto simp: map_of_eq_None_iff)
  have 2: "set (map fst dm') = set (map fst dm) \<union> {k. \<exists>m' \<in> set (m # ms). item_key m' = Some k}"
    using IH s1 key by auto
  have 3: "totalRating b' = (case map_of dm k of None \<Rightarrow> 0 | Some b \<Rightarrow> totalRating b)
                              + day_total k (m # ms)
         \<and> count b' = (case map_of dm k of None \<Rightarrow> 0 | Some b \<Rightarrow> count b)
                              + day_count k (m # ms)"
    if "map_of dm' k = Some b'" for k b'
  proof -
    from IH that have
      "totalRating b' = (case map_of dm1 k of None \<Rightarrow> 0 | Some b \<Rightarrow> totalRating b)
                              + day_total k ms
       \<and> count b' = (case map_of dm1 k of None \<Rightarrow> 0 | Some b \<Rightarrow> count b) + day_count k ms"
      by blast
    then show ?thesis
      unfolding look [of k] day_total_Cons day_count_Cons key
      by (auto split: option.splits)
  qed
  from IH 2 3 show ?case by blast
qed

lemma abs_total_mset: "mset ms = mset ms' \<Longrightarrow> abs_total ms = abs_total ms'"
proof -
  assume a: "mset ms = mset ms'"
  have "abs_total xs = sum_mset (image_mset (\<lambda>m. \<bar>item_moodValue m\<bar>) (mset xs))" for xs
    unfolding abs_total_def by (simp flip: sum_mset_sum_list)
  then show ?thesis using a by simp
qed

lemma day_total_mset: "mset ms = mset ms' \<Longrightarrow> day_total k ms = day_total k ms'"
proof -
  assume a: "mset ms = mset ms'"
  have "day_total k xs =
          sum_mset (image_mset item_moodValue (filter_mset (\<lambda>m. item_key m = Some k) (mset xs)))"
    for xs
    unfolding day_total_def by (simp flip: sum_mset_sum_list)
  then show ?thesis using a by simp
qed

lemma day_count_mset: "mset ms = mset ms' \<Longrightarrow> day_count k ms = day_count k ms'"
proof -
  assume a: "mset ms = mset ms'"
  have "day_count k xs = int (size (filter_mset (\<lambda>m. item_key m = Some k) (mset xs)))" for xs
    unfolding day_count_def by (simp flip: size_mset)
  then show ?thesis using a by simp
qed

lemma day_view_mset: "mset ms = mset ms' \<Longrightarrow> day_view ms = day_view ms'"
  by (rule ext) (simp add: day_view_def day_total_mset [of ms ms'] day_count_mset [of ms ms'])

lemma prepareChartData_error:
  "(\<exists>m \<in> set ms. item_key m = None) \<Longrightarrow> prepareChartData ms = Inl RangeError"
proof -
  assume "\<exists>m \<in> set ms. item_key m = None"
  then obtain e where "forEach_moods [] ms = Inl e"
    using forEach_moods_error [of "[]" ms] by blast
  moreover have "e = RangeError" by (cases e)
  ultimately show ?thesis by (simp add: prepareChartData_def)
qed

lemma prepareChartData_view:
  assumes "\<forall>m \<in> set ms. item_key m \<noteq> None" and "abs_total ms \<le> 9007199254740992"
  shows "\<exists>ks. bucket_view (prepareChartData ms) = Inr (map (day_view ms) (sort_key date_value ks))
            \<and> distinct ks \<and> set ks = {k. \<exists>m \<in> set ms. item_key m = Some k}"
proof -
  have "\<not> (\<exists>e. forEach_moods [] ms = Inl e)"
    using forEach_moods_error [of "[]" ms] assms(1) by blast
  then obtain dm where dm: "forEach_moods [] ms = Inr dm"
    by (cases "forEach_moods [] ms") auto
  have k0: "keyed []" by (simp add: keyed_def)
  from forEach_moods_result [OF dm k0 assms(2)] have
    kd: "keyed dm" and
    ks: "set (map fst dm) = {k. \<exists>m \<in> set ms. item_key m = Some k}" and
    tc: "\<And>k b. map_of dm k = Some b \<Longrightarrow>
           totalRating b = day_total k ms \<and> count b = day_count k ms"
    by auto
  let ?L = "sort_key (\<lambda>(k, b). date_value k) dm"
  have v: "(dateString (point_x (chart_point b)), point_y (chart_point b), fillColor (chart_point b))
             = day_view ms k" if "(k, b) \<in> set dm" for k b
  proof -
    from that kd have l: "map_of dm k = Some b" by (simp add: keyed_def)
    from that kd have "dateString (originalDate b) = k" by (auto simp: keyed_def)
    with tc [OF l] show ?thesis by (simp add: chart_point_def day_view_def Let_def)
  qed
  have "map (\<lambda>p. (dateString (point_x p), point_y p, fillColor p)) (map (\<lambda>(k, b). chart_point b) ?L)
          = map (\<lambda>kb. day_view ms (fst kb)) ?L"
    using v by (auto simp: case_prod_unfold)
  also have "\<dots> = map (day_view ms) (map fst ?L)" by simp
  also have "map fst ?L = sort_key date_value (map fst dm)"
    by (simp add: sort_key_map case_prod_unfold)
  finally have "bucket_view (prepareChartData ms)
                  = Inr (map (day_view ms) (sort_key date_value (map fst dm)))"
    by (simp add: bucket_view_def prepareChartData_def dm)
  moreover have "distinct (map fst dm)" using kd by (simp add: keyed_def)
  ultimately show ?thesis using ks by blast
qed

lemma item_key_Some:
  "item_key m = Some k \<Longrightarrow> \<exists>t. k = dateString t \<and> \<bar>t\<bar> \<le> 8640000000000000"
  by (auto simp: item_key_def dest: to_date_clipped)

lemma date_value_inj:
  "inj_on date_value {k. \<exists>m \<in> set ms. item_key m = Some k}"
proof (rule inj_onI)
  fix k1 k2
  assume "k1 \<in> {k. \<exists>m \<in> set ms. item_key m = Some k}"
         "k2 \<in> {k. \<exists>m \<in> set ms. item_key m = Some k}"
     and eq: "date_value k1 = date_value k2"
  then obtain t1 t2 where
    t: "k1 = dateString t1" "\<bar>t1\<bar> \<le> 8640000000000000"
       "k2 = dateString t2" "\<bar>t2\<bar> \<le> 8640000000000000"
    using item_key_Some by blast
  from eq have "Day t1 * msPerDay = Day t2 * msPerDay"
    by (simp add: t date_value_dateString)
  then have "Day t1 = Day t2" by (simp add: msPerDay_def)
  then show "k1 = k2" by (simp add: t dateString_def)
qed

lemma bucket_view_mset:
  assumes "mset ms = mset ms'" and "abs_total ms \<le> 9007199254740992"
  shows "bucket_view (prepareChartData ms) = bucket_view (prepareChartData ms')"
proof (cases "\<exists>m \<in> set ms. item_key m = None")
  case True
  moreover have "set ms = set ms'" using assms(1) by (rule mset_eq_setD)
  ultimately show ?thesis by (simp add: prepareChartData_error)
next
  case False
  have s: "set ms = set ms'" using assms(1) by (rule mset_eq_setD)
  have b': "abs_total ms' \<le> 9007199254740992"
    using assms(2) abs_total_mset [OF assms(1)] by simp
  from False assms(2) obtain ks where
    ks: "bucket_view (prepareChartData ms) = Inr (map (day_view ms) (sort_key date_value ks))"
        "distinct ks" "set ks = {k. \<exists>m \<in> set ms. item_key m = Some k}"
    using prepareChartData_view [of ms] by auto
  from False s b' obtain ks' where
    ks': "bucket_view (prepareChartData ms') = Inr (map (day_view ms') (sort_key date_value ks'))"
        "distinct ks'" "set ks' = {k. \<exists>m \<in> set ms'. item_key m = Some k}"
    using prepareChartData_view [of ms'] by auto
  have "mset ks = mset ks'"
    using ks(2,3) ks'(2,3) s by (simp add: set_eq_iff_mset_eq_distinct [symmetric])
  moreover have "inj_on date_value (set ks)"
    unfolding ks(3) by (rule date_value_inj)
  moreover have "sorted (map date_value (sort_key date_value ks'))" by (rule sorted_sort_key)
  ultimately have "sort_key date_value ks = sort_key date_value ks'"
    by (intro sort_key_inj_key_eq) simp_all
  then show ?thesis by (simp add: ks(1) ks'(1) day_view_mset [OF assms(1)])
qed

lemma Day_in_range:
  assumes "q * 86400000 \<le> t" "t < q * 86400000 + 86400000"
  shows "Day t = q"
proof -
  have "t = 86400000 * q + (t - q * 86400000)" by simp
  moreover have "0 \<le> t - q * 86400000" "t - q * 86400000 < 86400000" using assms by simp_all
  ultimately have "t div 86400000 = q" by (rule int_div_pos_eq)
  then show ?thesis by (simp add: Day_def msPerDay_def)
qed

lemma Timestamp_fromDate_timeClip:
  "Timestamp_fromDate (timeClip c) =
     (if - 62135596800000 \<le> c \<and> c < 253402300800000
      then Some \<lparr>seconds = c div 1000, nanoseconds = (c mod 1000) * 1000000\<rparr> else None)"
proof -
  define q where "q = c div 1000"
  have b: "1000 * q \<le> c \<and> c < 1000 * q + 1000"
    unfolding q_def by (rule div_bounds) simp
  have r: "(- 62135596800 \<le> q \<and> q \<le> 253402300799)
             \<longleftrightarrow> (- 62135596800000 \<le> c \<and> c < 253402300800000)"
    using b by linarith
  show ?thesis
  proof (cases "\<bar>c\<bar> \<le> 8640000000000000")
    case True
    then show ?thesis
      using r by (simp add: Timestamp_fromDate_def timeClip_def q_def)
  next
    case False
    then have "\<not> (- 62135596800000 \<le> c \<and> c < 253402300800000)" by linarith
    with False show ?thesis by (simp add: Timestamp_fromDate_def timeClip_def)
  qed
qed

lemma isoDate_2024_01_01: "isoDate 19723 = ''2024-01-01''"
  by code_simp

lemma isoDate_2024_01_02: "isoDate 19724 = ''2024-01-02''"
  by code_simp

lemma date_value_2024:
  "date_value ''2024-01-01'' = 1704067200000" "date_value ''2024-01-02'' = 1704153600000"
  by code_simp+

lemma round_3_5:
  "nearest_double 3 = 3" "toFixed2 3 = 3" "Math_round 3 = 3"
  "nearest_double 5 = 5" "toFixed2 5 = 5" "Math_round 5 = 5"
  by code_simp+

section \<open>Ownership\<close>

text \<open>
  C2. For an existing entry \<open>e\<close> and an authenticated caller \<open>c\<close> who is not its owner,
  PUT and DELETE on the entry's id answer 403 and return the store as it was, whatever
  the body holds: the ownership test comes before the update map is built and before
  the delete is issued.
\<close>

theorem C2_not_owner_rejected:
  assumes "verifyFirebaseIdToken E req = Inr c"
    and "doc_get st (param_id req) = Some e"
    and "c \<noteq> userId e"
  shows "router_put E req st =
           (\<lparr>status = 403, json = Message ''Unauthorized to update this mood entry.''\<rparr>, st)
       \<and> router_delete E req st =
           (\<lparr>status = 403, json = Message ''Unauthorized to delete this mood entry.''\<rparr>, st)"
  using assms by (auto simp: router_put_def router_delete_def)

theorem C2_not_owner_rejected_witness:
  "router_put utc_env (mk_request ''tok-bob'' [(''moodValue'', JNum (Fin 1))] [] 1)
       [(1, alice_entry)] =
     (\<lparr>status = 403, json = Message ''Unauthorized to update this mood entry.''\<rparr>,
      [(1, alice_entry)])
   \<and> router_delete utc_env (mk_request ''tok-bob'' [(''moodValue'', JNum (Fin 1))] [] 1)
       [(1, alice_entry)] =
     (\<lparr>status = 403, json = Message ''Unauthorized to delete this mood entry.''\<rparr>,
      [(1, alice_entry)])"
proof -
  have h2: "doc_get [(1, alice_entry)]
              (param_id (mk_request ''tok-bob'' [(''moodValue'', JNum (Fin 1))] [] 1))
            = Some alice_entry"
    by (simp add: doc_get_def mk_request_def)
  have h3: "''bob'' \<noteq> userId alice_entry" by (simp add: alice_entry_def)
  show ?thesis by (rule C2_not_owner_rejected [OF verify_mk_request_bob h2 h3])
qed

section \<open>Submitting an entry\<close>

text \<open>
  C1, as the specification states it, fails: the handlers test only that \<open>moodValue\<close> is
  truthy. A rating of 6 is accepted by both POST handlers and persisted.
\<close>

theorem C1_rating_six_accepted:
  "router_post utc_env req6 [] =
     (\<lparr>status = 201, json = MoodAdded ''Mood entry added successfully.'' None\<rparr>,
      [(1, \<lparr>userId = ''alice'', moodValue = Fin 6, mood_notes = JStr '''',
             recordedAt = \<lparr>seconds = 1704067200, nanoseconds = 0\<rparr>\<rparr>)])
   \<and> app_post utc_env \<lparr>seconds = 1704067200, nanoseconds = 0\<rparr> req6 [] =
     (\<lparr>status = 201, json = MoodAdded ''Mood entry added successfully.'' (Some 1)\<rparr>,
      [(1, \<lparr>userId = ''alice'', moodValue = Fin 6, mood_notes = JStr '''',
             recordedAt = \<lparr>seconds = 1704067200, nanoseconds = 0\<rparr>\<rparr>)])"
  by (simp add: router_post_def app_post_def req6_def verify_mk_request_alice)
     (simp add: mk_request_def utc_env_def js_or_def coll_add_def autoId_def timeClip_def
        Timestamp_fromDate_def)

text \<open>
  C1, amended. For an authenticated caller, \<open>app.post\<close> answers 400 exactly when
  \<open>moodValue\<close> is falsy (absent, \<open>null\<close>, \<open>false\<close>, 0, NaN, the empty string) and 201
  otherwise; \<open>router.post\<close> answers 400 exactly when \<open>moodValue\<close> or \<open>recordedAt\<close> is
  falsy; a 400 persists nothing. No range is checked: a truthy \<open>moodValue\<close> that
  \<open>parseInt\<close> reads as the integer \<open>n\<close> is persisted with rating \<open>n\<close>, by \<open>app.post\<close>
  with status 201 and the generated id, by \<open>router.post\<close> with status 201 when
  \<open>recordedAt\<close> converts to a Timestamp.
\<close>

theorem C1_submit_guard:
  assumes "verifyFirebaseIdToken E req = Inr uid"
  shows "(status (fst (app_post E t req st)) = 400 \<longleftrightarrow> \<not> truthy (body req ''moodValue''))
       \<and> (status (fst (app_post E t req st)) = 201 \<longleftrightarrow> truthy (body req ''moodValue''))
       \<and> (status (fst (router_post E req st)) = 400 \<longleftrightarrow>
            \<not> truthy (body req ''moodValue'') \<or> \<not> truthy (body req ''recordedAt''))
       \<and> (status (fst (app_post E t req st)) = 400 \<longrightarrow> snd (app_post E t req st) = st)
       \<and> (status (fst (router_post E req st)) = 400 \<longrightarrow> snd (router_post E req st) = st)
       \<and> (\<forall>n. truthy (body req ''moodValue'') \<and> parseInt (body req ''moodValue'') = Fin n \<longrightarrow>
            fst (app_post E t req st) =
              \<lparr>status = 201, json = MoodAdded ''Mood entry added successfully.'' (Some (autoId st))\<rparr>
            \<and> (\<exists>d. snd (app_post E t req st) = coll_add st d \<and> moodValue d = Fin n))
       \<and> (\<forall>n ts. truthy (body req ''moodValue'') \<and> parseInt (body req ''moodValue'') = Fin n
            \<and> truthy (body req ''recordedAt'')
            \<and> tsFromDate E (newDate E (body req ''recordedAt'')) = Some ts \<longrightarrow>
            status (fst (router_post E req st)) = 201
            \<and> (\<exists>d. snd (router_post E req st) = coll_add st d \<and> moodValue d = Fin n))"
  using assms by (auto simp: app_post_def router_post_def split: option.splits)

theorem C1_submit_guard_witness:
  "verifyFirebaseIdToken utc_env req6 = Inr ''alice''
   \<and> truthy (body req6 ''moodValue'') \<and> parseInt (body req6 ''moodValue'') = Fin 6
   \<and> status (fst (app_post utc_env \<lparr>seconds = 7, nanoseconds = 0\<rparr> req6 [])) = 201
   \<and> (\<exists>d. snd (app_post utc_env \<lparr>seconds = 7, nanoseconds = 0\<rparr> req6 []) = coll_add [] d
          \<and> moodValue d = Fin 6)
   \<and> status (fst (router_post utc_env req6 [])) = 201
   \<and> (\<exists>d. snd (router_post utc_env req6 []) = coll_add [] d \<and> moodValue d = Fin 6)"
  using C1_submit_guard [OF req6_facts(1), of "\<lparr>seconds = 7, nanoseconds = 0\<rparr>" "[]"]
  by (simp add: req6_facts del: newDate.simps)

text \<open>
  C3. The \<open>userId\<close> of a persisted entry is the uid that \<open>verifyIdToken\<close> returned for
  the bearer token. Whatever a POST handler adds to the store carries that uid, and two
  requests that agree on \<open>moodValue\<close>, \<open>notes\<close> and \<open>recordedAt\<close> have the same outcome
  whatever else their bodies hold.
\<close>

theorem C3_owner_from_token:
  assumes "verifyFirebaseIdToken E req = Inr uid"
  shows "(\<exists>tok. idToken req = Some tok \<and> verifyIdToken E tok = Some uid)
       \<and> (snd (router_post E req st) = st
            \<or> (\<exists>d. snd (router_post E req st) = coll_add st d \<and> userId d = uid))
       \<and> (snd (app_post E t req st) = st
            \<or> (\<exists>d. snd (app_post E t req st) = coll_add st d \<and> userId d = uid))
       \<and> (\<forall>b. b ''moodValue'' = body req ''moodValue'' \<and> b ''notes'' = body req ''notes''
               \<and> b ''recordedAt'' = body req ''recordedAt'' \<longrightarrow>
             router_post E (req\<lparr>body := b\<rparr>) st = router_post E req st
           \<and> app_post E t (req\<lparr>body := b\<rparr>) st = app_post E t req st)"
proof -
  have 1: "\<exists>tok. idToken req = Some tok \<and> verifyIdToken E tok = Some uid"
    using verified_token [OF assms] by blast
  have 2: "snd (router_post E req st) = st
            \<or> (\<exists>d. snd (router_post E req st) = coll_add st d \<and> userId d = uid)"
    using assms by (auto simp: router_post_def split: option.splits)
  have 3: "snd (app_post E t req st) = st
            \<or> (\<exists>d. snd (app_post E t req st) = coll_add st d \<and> userId d = uid)"
    using assms by (auto simp: app_post_def)
  have 4: "router_post E (req\<lparr>body := b\<rparr>) st = router_post E req st
         \<and> app_post E t (req\<lparr>body := b\<rparr>) st = app_post E t req st"
    if "b ''moodValue'' = body req ''moodValue'' \<and> b ''notes'' = body req ''notes''
               \<and> b ''recordedAt'' = body req ''recordedAt''" for b
    using that assms
    by (simp add: router_post_def app_post_def verify_body_irrelevant split: option.splits)
  from 1 2 3 4 show ?thesis by blast
qed

theorem C3_owner_from_token_witness:
  "verifyFirebaseIdToken utc_env req6 = Inr ''alice''
   \<and> (\<exists>d. snd (router_post utc_env req6 []) = coll_add [] d \<and> userId d = ''alice'')
   \<and> router_post utc_env (req6\<lparr>body := (body req6)(''userId'' := JStr ''mallory'')\<rparr>) []
       = router_post utc_env req6 []
   \<and> app_post utc_env \<lparr>seconds = 7, nanoseconds = 0\<rparr>
         (req6\<lparr>body := (body req6)(''userId'' := JStr ''mallory'')\<rparr>) []
       = app_post utc_env \<lparr>seconds = 7, nanoseconds = 0\<rparr> req6 []"
proof -
  have ne: "snd (router_post utc_env req6 []) \<noteq> []"
    by (simp add: router_post_def req6_facts coll_add_def del: newDate.simps)
  show ?thesis
    using C3_owner_from_token [OF req6_facts(1), of "[]" "\<lparr>seconds = 7, nanoseconds = 0\<rparr>"] ne
    by (simp add: req6_facts)
qed

text \<open>
  C6, as the specification states it, fails: \<open>router.post\<close> requires \<open>recordedAt\<close>. A
  request with rating 4, notes and no \<open>recordedAt\<close> is answered 400 and nothing is
  persisted.
\<close>

theorem C6_recordedAt_required:
  "router_post utc_env
     (mk_request ''tok-alice'' [(''moodValue'', JNum (Fin 4)), (''notes'', JStr ''ok'')] [] 0) []
   = (\<lparr>status = 400, json = Message ''Recorded date and time is required.''\<rparr>, [])"
  by (simp add: router_post_def verify_mk_request_alice) (simp add: mk_request_def)

text \<open>
  C6, amended. For an authenticated caller whose \<open>moodValue\<close> is truthy: \<open>router.post\<close>
  answers 400 and persists nothing when \<open>recordedAt\<close> is omitted (or falsy); when it is
  supplied and \<open>Timestamp.fromDate(new Date(recordedAt))\<close> gives a timestamp, the answer
  is 201 and the entry is persisted with that timestamp; when the conversion throws, the
  answer is 500, not 400, and nothing is persisted. \<open>app.post\<close> never reads the body's
  \<open>recordedAt\<close>: it answers 201 and persists the entry with the store's server time.
  When \<open>moodValue\<close> is falsy both handlers answer 400 and persist nothing, whatever
  \<open>recordedAt\<close> is.
\<close>

theorem C6_recordedAt_handling:
  assumes "verifyFirebaseIdToken E req = Inr uid"
  shows "(\<not> truthy (body req ''moodValue'') \<longrightarrow>
            router_post E req st =
              (\<lparr>status = 400, json = Message ''Mood value is required.''\<rparr>, st)
          \<and> app_post E serverTime req st =
              (\<lparr>status = 400, json = Message ''Mood value is required.''\<rparr>, st))
       \<and> (truthy (body req ''moodValue'') \<longrightarrow>
            (\<not> truthy (body req ''recordedAt'') \<longrightarrow>
               router_post E req st =
                 (\<lparr>status = 400, json = Message ''Recorded date and time is required.''\<rparr>, st))
          \<and> (\<forall>ts. truthy (body req ''recordedAt'')
                 \<and> tsFromDate E (newDate E (body req ''recordedAt'')) = Some ts \<longrightarrow>
               status (fst (router_post E req st)) = 201
               \<and> (\<exists>d. snd (router_post E req st) = coll_add st d \<and> recordedAt d = ts))
          \<and> (truthy (body req ''recordedAt'')
                 \<and> tsFromDate E (newDate E (body req ''recordedAt'')) = None \<longrightarrow>
               router_post E req st =
                 (\<lparr>status = 500, json = Error ''Internal Server Error while adding mood.''\<rparr>,
                  st))
          \<and> status (fst (app_post E serverTime req st)) = 201
          \<and> (\<exists>d. snd (app_post E serverTime req st) = coll_add st d
                 \<and> recordedAt d = serverTime)
          \<and> (\<forall>v. app_post E serverTime (req\<lparr>body := (body req)(''recordedAt'' := v)\<rparr>) st
                 = app_post E serverTime req st))"
  using assms by (auto simp: router_post_def app_post_def verify_body_irrelevant)

theorem C6_recordedAt_handling_witness:
  "verifyFirebaseIdToken utc_env req_no_date = Inr ''alice''
   \<and> truthy (body req_no_date ''moodValue'') \<and> \<not> truthy (body req_no_date ''recordedAt'')
   \<and> router_post utc_env req_no_date [] =
        (\<lparr>status = 400, json = Message ''Recorded date and time is required.''\<rparr>, [])
   \<and> status (fst (app_post utc_env \<lparr>seconds = 7, nanoseconds = 0\<rparr> req_no_date [])) = 201
   \<and> (\<exists>d. snd (app_post utc_env \<lparr>seconds = 7, nanoseconds = 0\<rparr> req_no_date []) = coll_add [] d
          \<and> recordedAt d = \<lparr>seconds = 7, nanoseconds = 0\<rparr>)
   \<and> truthy (body req6 ''recordedAt'')
   \<and> status (fst (router_post utc_env req6 [])) = 201
   \<and> (\<exists>d. snd (router_post utc_env req6 []) = coll_add [] d
          \<and> recordedAt d = \<lparr>seconds = 1704067200, nanoseconds = 0\<rparr>)
   \<and> \<not> truthy (body req_recent ''moodValue'')
   \<and> router_post utc_env req_recent [] =
        (\<lparr>status = 400, json = Message ''Mood value is required.''\<rparr>, [])
   \<and> app_post utc_env \<lparr>seconds = 7, nanoseconds = 0\<rparr> req_recent [] =
        (\<lparr>status = 400, json = Message ''Mood value is required.''\<rparr>, [])"
proof -
  have t: "body req_recent ''moodValue'' = JUndefined"
    by (simp add: req_recent_def mk_request_def)
  show ?thesis
    using C6_recordedAt_handling
            [OF req_no_date_facts(1), of "[]" "\<lparr>seconds = 7, nanoseconds = 0\<rparr>"]
          C6_recordedAt_handling
            [OF req6_facts(1), of "[]" "\<lparr>seconds = 7, nanoseconds = 0\<rparr>"]
          C6_recordedAt_handling
            [OF req_recent_facts(1), of "[]" "\<lparr>seconds = 7, nanoseconds = 0\<rparr>"]
    by (simp add: req_no_date_facts req6_facts t del: newDate.simps)
qed

section \<open>The rating invariant\<close>

text \<open>
  C4, as the specification states it, fails. The owner's PUT with rating 9 is answered
  200 and leaves an entry with rating 9 in a store whose ratings were all in range, and a
  POST with the rating \<open>'3.7'\<close> persists the rating 3.
\<close>

theorem C4_range_not_enforced:
  "rating_in_range [(1, alice_entry)]
   \<and> router_put utc_env (mk_request ''tok-alice'' [(''moodValue'', JNum (Fin 9))] [] 1)
       [(1, alice_entry)] =
     (\<lparr>status = 200, json = Message ''Mood entry updated successfully.''\<rparr>,
      [(1, alice_entry\<lparr>moodValue := Fin 9\<rparr>)])
   \<and> \<not> rating_in_range [(1, alice_entry\<lparr>moodValue := Fin 9\<rparr>)]
   \<and> snd (app_post utc_env \<lparr>seconds = 5, nanoseconds = 0\<rparr>
            (mk_request ''tok-alice'' [(''moodValue'', JStr ''3.7'')] [] 0) []) =
       [(1, \<lparr>userId = ''alice'', moodValue = Fin 3, mood_notes = JStr '''',
              recordedAt = \<lparr>seconds = 5, nanoseconds = 0\<rparr>\<rparr>)]"
  by (simp add: router_put_def app_post_def verify_mk_request_alice)
     (simp add: mk_request_def utc_env_def js_or_def coll_add_def autoId_def
        Timestamp_fromDate_def
        rating_in_range_def alice_entry_def doc_get_def put_updateData_def is_empty_update_def
        doc_update_def apply_update_def parseInt_string_def is_ws_def is_digit_def digit_of_def
        digits_value_def double_of_int_def)

text \<open>
  C4, amended. The handlers check no range; they write \<open>parseInt(moodValue)\<close>. If every
  rating in the store is in 1..5, then DELETE keeps it so, the POST handlers keep it so
  when \<open>parseInt(moodValue)\<close> is in 1..5, and PUT keeps it so when the patch has no
  \<open>moodValue\<close> or \<open>parseInt(moodValue)\<close> is in 1..5. For \<open>app.post\<close> this is exact: an
  accepted request persists the rating \<open>parseInt(moodValue)\<close>, and the invariant holds
  afterwards if and only if that value is in 1..5.
\<close>

theorem C4_range_preserved_when_parsed_in_range:
  assumes "rating_in_range st"
  shows "rating_in_range (snd (router_delete E req st))
       \<and> (valid_rating (parseInt (body req ''moodValue'')) \<longrightarrow>
            rating_in_range (snd (router_post E req st))
          \<and> rating_in_range (snd (app_post E t req st)))
       \<and> (body req ''moodValue'' = JUndefined \<or> valid_rating (parseInt (body req ''moodValue''))
            \<longrightarrow> rating_in_range (snd (router_put E req st)))
       \<and> (\<forall>uid. verifyFirebaseIdToken E req = Inr uid \<and> truthy (body req ''moodValue'') \<longrightarrow>
            (\<exists>d. snd (app_post E t req st) = coll_add st d
                \<and> moodValue d = parseInt (body req ''moodValue''))
          \<and> (rating_in_range (snd (app_post E t req st))
               \<longleftrightarrow> valid_rating (parseInt (body req ''moodValue''))))"
proof -
  have 1: "rating_in_range (snd (router_delete E req st))"
    using assms
    by (auto simp: router_delete_def rating_in_range_delete split: sum.splits option.splits)
  have 2: "rating_in_range (snd (router_post E req st))"
    if "valid_rating (parseInt (body req ''moodValue''))"
    using assms that
    by (auto simp: router_post_def rating_in_range_add split: sum.splits option.splits)
  have 3: "rating_in_range (snd (app_post E t req st))"
    if "valid_rating (parseInt (body req ''moodValue''))"
    using assms that
    by (auto simp: app_post_def rating_in_range_add split: sum.splits option.splits)
  have 4: "rating_in_range (snd (router_put E req st))"
    if "body req ''moodValue'' = JUndefined \<or> valid_rating (parseInt (body req ''moodValue''))"
  proof -
    have "\<forall>v. u_moodValue u = Some v \<longrightarrow> valid_rating v" if "put_updateData E req = Some u" for u
      using that \<open>body req ''moodValue'' = JUndefined \<or> _\<close>
      by (auto simp: put_updateData_def Let_def split: if_splits)
    then show ?thesis
      using assms
      by (auto simp: router_put_def rating_in_range_update split: sum.splits option.splits)
  qed
  have 5: "(\<exists>d. snd (app_post E t req st) = coll_add st d
                \<and> moodValue d = parseInt (body req ''moodValue''))
          \<and> (rating_in_range (snd (app_post E t req st))
               \<longleftrightarrow> valid_rating (parseInt (body req ''moodValue'')))"
    if "verifyFirebaseIdToken E req = Inr uid \<and> truthy (body req ''moodValue'')" for uid
    using assms that by (auto simp: app_post_def rating_in_range_add)
  from 1 2 3 4 5 show ?thesis by blast
qed

theorem C4_range_preserved_witness:
  "rating_in_range [(1, alice_entry)]
   \<and> valid_rating (parseInt (body req_rate5 ''moodValue''))
   \<and> rating_in_range (snd (router_put utc_env req_rate5 [(1, alice_entry)]))
   \<and> snd (router_put utc_env req_rate5 [(1, alice_entry)])
        = [(1, alice_entry\<lparr>moodValue := Fin 5\<rparr>)]
   \<and> rating_in_range (snd (app_post utc_env \<lparr>seconds = 7, nanoseconds = 0\<rparr> req_rate5
                              [(1, alice_entry)]))"
proof -
  have h: "rating_in_range [(1, alice_entry)]"
    by (simp add: rating_in_range_def alice_entry_def)
  have p: "snd (router_put utc_env req_rate5 [(1, alice_entry)])
        = [(1, alice_entry\<lparr>moodValue := Fin 5\<rparr>)]"
    by (simp add: router_put_def req_rate5_facts doc_get_def put_updateData_def
          is_empty_update_def doc_update_def apply_update_def alice_entry_def)
  show ?thesis
    using C4_range_preserved_when_parsed_in_range
            [OF h, of utc_env req_rate5 "\<lparr>seconds = 7, nanoseconds = 0\<rparr>"] h p
    by (simp add: req_rate5_facts)
qed

section \<open>Listing recent entries\<close>

text \<open>
  C7, as the specification states it, fails for a large window: 800000 days back from
  2024 is before the year 1, \<open>Timestamp.fromDate\<close> throws on the cutoff, and both GET
  handlers answer 500.
\<close>

theorem C7_window_out_of_range:
  "router_get_recent utc_env 1704196800000 req_recent_huge recent_store =
     (\<lparr>status = 500, json = Error ''Internal Server Error while fetching moods.''\<rparr>,
      recent_store)
   \<and> app_get_recent utc_env 1704196800000 req_recent_huge recent_store =
     (\<lparr>status = 500, json = Error ''Internal Server Error while fetching moods.''\<rparr>,
      recent_store)"
  by (simp add: router_get_recent_def app_get_recent_def req_recent_huge_facts js_or_def)
     (simp add: utc_env_def UTC_def LocalTime_def msPerDay_def timeClip_def
        Timestamp_fromDate_def)

text \<open>
  C7, amended. Let \<open>c\<close> be the present moment moved back by \<open>windowDays\<close> calendar days in
  the host's time zone, the time of day kept (\<open>setDate(getDate() - days)\<close>; on a host
  with a fixed offset from UTC, \<open>c = now - windowDays * 86400000\<close>). For an authenticated
  caller and a \<open>days\<close> parameter that \<open>parseInt\<close> reads as \<open>windowDays\<close>: when \<open>c\<close> lies
  in the years 1 to 9999, the range of a Firestore timestamp, both GET handlers answer
  200 with exactly the entries of the store whose \<open>userId\<close> is the caller and whose
  \<open>recordedAt\<close> is not before \<open>c\<close>, each once, most recent first, and with the empty
  list when no entry qualifies; when \<open>c\<close> lies outside that range both answer 500.
\<close>

theorem C7_listRecent:
  assumes "verifyFirebaseIdToken E req = Inr caller"
    and "query req ''days'' = JStr s"
    and "parseInt_string s = Fin windowDays"
    and "tsFromDate E = Timestamp_fromDate"
    and "c = UTC E (LocalTime E now - windowDays * msPerDay)"
  shows "(- 62135596800000 \<le> c \<and> c < 253402300800000 \<longrightarrow>
            (\<exists>ms. router_get_recent E now req st = (\<lparr>status = 200, json = Moods ms\<rparr>, st)
               \<and> app_get_recent E now req st = (\<lparr>status = 200, json = Moods ms\<rparr>, st)
               \<and> mset ms = filter_mset
                    (\<lambda>(i, d). userId d = caller
                               \<and> (c div 1000, (c mod 1000) * 1000000) \<le> ts_key (recordedAt d))
                    (mset st)
               \<and> sorted_wrt (\<lambda>a b. ts_key (recordedAt (snd b)) \<le> ts_key (recordedAt (snd a))) ms
               \<and> ((\<forall>(i, d) \<in> set st.
                      \<not> (userId d = caller
                         \<and> (c div 1000, (c mod 1000) * 1000000) \<le> ts_key (recordedAt d)))
                    \<longrightarrow> ms = [])))
       \<and> (\<not> (- 62135596800000 \<le> c \<and> c < 253402300800000) \<longrightarrow>
            router_get_recent E now req st =
              (\<lparr>status = 500, json = Error ''Internal Server Error while fetching moods.''\<rparr>,
               st)
          \<and> app_get_recent E now req st =
              (\<lparr>status = 500, json = Error ''Internal Server Error while fetching moods.''\<rparr>,
               st))
       \<and> ((\<forall>t u. LocalTZA E t u = z) \<longrightarrow> c = now - windowDays * 86400000)"
proof -
  have ne: "s \<noteq> []"
    using assms(3) by (auto simp: parseInt_string_def)
  have d: "parseInt (js_or (query req ''days'') (JStr dflt)) = Fin windowDays" for dflt
    using assms(2,3) ne by (cases "\<bar>windowDays\<bar> < 10 ^ 21") (simp_all add: js_or_def)
  let ?cutoff = "\<lparr>seconds = c div 1000, nanoseconds = (c mod 1000) * 1000000\<rparr>"
  have ts: "tsFromDate E (setDateBack E now (Fin windowDays)) =
              (if - 62135596800000 \<le> c \<and> c < 253402300800000 then Some ?cutoff else None)"
    by (simp add: assms(4,5) Timestamp_fromDate_timeClip)
  have k: "ts_key ?cutoff = (c div 1000, (c mod 1000) * 1000000)" by (simp add: ts_key_def)
  let ?ms = "recent_query st caller ?cutoff"
  have 1: "router_get_recent E now req st = (\<lparr>status = 200, json = Moods ?ms\<rparr>, st)
         \<and> app_get_recent E now req st = (\<lparr>status = 200, json = Moods ?ms\<rparr>, st)"
    if "- 62135596800000 \<le> c \<and> c < 253402300800000"
    using assms(1) that
    by (simp add: router_get_recent_def app_get_recent_def d ts del: setDateBack.simps)
  have 2: "router_get_recent E now req st =
              (\<lparr>status = 500, json = Error ''Internal Server Error while fetching moods.''\<rparr>,
               st)
          \<and> app_get_recent E now req st =
              (\<lparr>status = 500, json = Error ''Internal Server Error while fetching moods.''\<rparr>,
               st)"
    if "\<not> (- 62135596800000 \<le> c \<and> c < 253402300800000)"
    using assms(1) that
    by (simp add: router_get_recent_def app_get_recent_def d ts del: setDateBack.simps)
  have 3: "?ms = []"
    if "\<forall>(i, d) \<in> set st.
          \<not> (userId d = caller \<and> (c div 1000, (c mod 1000) * 1000000) \<le> ts_key (recordedAt d))"
  proof -
    have "mset ?ms = {#}"
      unfolding recent_query_mset k using that by auto
    then show ?thesis by simp
  qed
  have 4: "c = now - windowDays * 86400000" if "\<forall>t u. LocalTZA E t u = z"
    using that by (simp add: assms(5) UTC_def LocalTime_def msPerDay_def)
  have 5: "mset ?ms = filter_mset
                    (\<lambda>(i, d). userId d = caller
                               \<and> (c div 1000, (c mod 1000) * 1000000) \<le> ts_key (recordedAt d))
                    (mset st)"
    unfolding recent_query_mset k ..
  from 1 2 3 4 5 recent_query_descending [of st caller ?cutoff] show ?thesis by blast
qed

theorem C7_listRecent_witness:
  "router_get_recent utc_env 1704196800000 req_recent recent_store =
     (\<lparr>status = 200,
       json = Moods [(3, entry_at ''alice'' 1704190000), (2, entry_at ''alice'' 1704110400)]\<rparr>,
      recent_store)
   \<and> app_get_recent utc_env 1704196800000 req_recent recent_store =
     (\<lparr>status = 200,
       json = Moods [(3, entry_at ''alice'' 1704190000), (2, entry_at ''alice'' 1704110400)]\<rparr>,
      recent_store)
   \<and> (1704110400000 :: int) = 1704196800000 - 1 * 86400000"
proof -
  have rng: "- 62135596800000 \<le> (1704110400000 :: int) \<and> (1704110400000 :: int) < 253402300800000"
    by simp
  obtain ms where
    ms: "router_get_recent utc_env 1704196800000 req_recent recent_store =
           (\<lparr>status = 200, json = Moods ms\<rparr>, recent_store)"
        "app_get_recent utc_env 1704196800000 req_recent recent_store =
           (\<lparr>status = 200, json = Moods ms\<rparr>, recent_store)"
    using C7_listRecent [OF req_recent_facts, of recent_store 0] rng by blast
  have "tsFromDate utc_env (setDateBack utc_env 1704196800000 (Fin 1))
          = Some \<lparr>seconds = 1704110400, nanoseconds = 0\<rparr>"
    by (simp add: utc_env_def UTC_def LocalTime_def msPerDay_def timeClip_def
          Timestamp_fromDate_def)
  then have "router_get_recent utc_env 1704196800000 req_recent recent_store =
          (\<lparr>status = 200,
            json = Moods (recent_query recent_store ''alice''
                            \<lparr>seconds = 1704110400, nanoseconds = 0\<rparr>)\<rparr>, recent_store)"
    by (simp add: router_get_recent_def req_recent_facts(1,2,3) js_or_def
          del: setDateBack.simps)
  with ms(1) have "ms = [(3, entry_at ''alice'' 1704190000), (2, entry_at ''alice'' 1704110400)]"
    by (simp add: recent_store_result)
  with ms show ?thesis by simp
qed

section \<open>Updating an entry\<close>

text \<open>
  C9, as the specification states it, fails for a patch whose \<open>recordedAt\<close> does not convert
  to a timestamp: the conversion throws after the other fields were put into
  \<open>updateData\<close> and before \<open>update\<close> is called, so the answer is 500 and the patch's
  \<open>notes\<close> are not applied.
\<close>

theorem C9_patch_not_applied:
  "router_put utc_env req_bad_date [(1, alice_entry)] =
     (\<lparr>status = 500, json = Error ''Internal Server Error while updating mood.''\<rparr>,
      [(1, alice_entry)])
   \<and> body req_bad_date ''notes'' = JStr ''better''
   \<and> mood_notes alice_entry = JStr ''fine''"
  by (simp add: router_put_def req_bad_date_facts doc_get_def put_updateData_def
        utc_env_tsFromDate_None alice_entry_def del: newDate.simps)

text \<open>
  C9, amended. For an existing entry owned by the caller, PUT answers 200 exactly when
  the patch's \<open>recordedAt\<close>, if present, converts to a timestamp and the patch is not an
  empty one that the store rejects; any other answer is 500 and leaves the store as it
  was. After PUT the entry is still there with the same owner, and each of \<open>moodValue\<close>,
  \<open>notes\<close>, \<open>recordedAt\<close> that the patch does not hold keeps its stored value. When
  the answer is 200, each field the patch holds has the patch's value as the handler
  converts it (\<open>parseInt\<close>, the notes as they are,
  \<open>Timestamp.fromDate(new Date(recordedAt))\<close>). An empty patch leaves the store unchanged,
  and no other entry is touched.
\<close>

theorem C9_update_frame:
  assumes "verifyFirebaseIdToken E req = Inr caller"
    and "doc_get st (param_id req) = Some e"
    and "userId e = caller"
  shows "(status (fst (router_put E req st)) = 200 \<longleftrightarrow>
            (body req ''recordedAt'' = JUndefined
               \<or> tsFromDate E (newDate E (body req ''recordedAt'')) \<noteq> None)
            \<and> \<not> (body req ''moodValue'' = JUndefined \<and> body req ''notes'' = JUndefined
                   \<and> body req ''recordedAt'' = JUndefined \<and> emptyUpdateThrows E))
       \<and> (status (fst (router_put E req st)) \<noteq> 200 \<longrightarrow>
            router_put E req st =
              (\<lparr>status = 500, json = Error ''Internal Server Error while updating mood.''\<rparr>,
               st))
       \<and> (\<exists>e'. doc_get (snd (router_put E req st)) (param_id req) = Some e'
          \<and> userId e' = userId e
          \<and> (body req ''moodValue'' = JUndefined \<longrightarrow> moodValue e' = moodValue e)
          \<and> (body req ''notes'' = JUndefined \<longrightarrow> mood_notes e' = mood_notes e)
          \<and> (body req ''recordedAt'' = JUndefined \<longrightarrow> recordedAt e' = recordedAt e)
          \<and> (status (fst (router_put E req st)) = 200 \<longrightarrow>
                (body req ''moodValue'' \<noteq> JUndefined \<longrightarrow>
                   moodValue e' = parseInt (body req ''moodValue''))
              \<and> (body req ''notes'' \<noteq> JUndefined \<longrightarrow> mood_notes e' = body req ''notes'')
              \<and> (body req ''recordedAt'' \<noteq> JUndefined \<longrightarrow>
                   Some (recordedAt e') = tsFromDate E (newDate E (body req ''recordedAt'')))))
       \<and> (body req ''moodValue'' = JUndefined \<and> body req ''notes'' = JUndefined
               \<and> body req ''recordedAt'' = JUndefined \<longrightarrow> snd (router_put E req st) = st)
       \<and> (\<forall>j. j \<noteq> param_id req \<longrightarrow>
                doc_get (snd (router_put E req st)) j = doc_get st j)"
proof -
  let ?mv = "body req ''moodValue''" and ?nt = "body req ''notes''"
    and ?ra = "body req ''recordedAt''"
  let ?u = "\<lparr>u_moodValue = (if ?mv \<noteq> JUndefined then Some (parseInt ?mv) else None),
            u_notes = (if ?nt \<noteq> JUndefined then Some ?nt else None),
            u_recordedAt = (if ?ra \<noteq> JUndefined then tsFromDate E (newDate E ?ra) else None)\<rparr>"
  let ?ok = "(?ra = JUndefined \<or> tsFromDate E (newDate E ?ra) \<noteq> None)
             \<and> \<not> (?mv = JUndefined \<and> ?nt = JUndefined \<and> ?ra = JUndefined
                    \<and> emptyUpdateThrows E)"
  have r: "router_put E req st =
             (if ?ok then (\<lparr>status = 200, json = Message ''Mood entry updated successfully.''\<rparr>,
                           doc_update st (param_id req) ?u)
              else (\<lparr>status = 500,
                      json = Error ''Internal Server Error while updating mood.''\<rparr>, st))"
    using assms by (rule router_put_owner)
  show ?thesis
  proof (cases ?ok)
    case False
    have r': "router_put E req st =
        (\<lparr>status = 500, json = Error ''Internal Server Error while updating mood.''\<rparr>, st)"
      unfolding r using False by (rule if_not_P)
    from False have "?ra \<noteq> JUndefined \<or> (?mv = JUndefined \<and> ?nt = JUndefined)" by blast
    with False assms(2) show ?thesis unfolding r' by auto
  next
    case True
    have r': "router_put E req st =
        (\<lparr>status = 200, json = Message ''Mood entry updated successfully.''\<rparr>,
         doc_update st (param_id req) ?u)"
      unfolding r using True by (rule if_P)
    have e: "doc_get (doc_update st (param_id req) ?u) (param_id req) = Some (apply_update ?u e)"
      by (simp add: doc_get_update assms(2))
    have emp: "doc_update st (param_id req) ?u = st"
      if "?mv = JUndefined \<and> ?nt = JUndefined \<and> ?ra = JUndefined"
      using that by (intro doc_update_empty) (simp add: is_empty_update_def)
    have other: "doc_get (doc_update st (param_id req) ?u) j = doc_get st j"
      if "j \<noteq> param_id req" for j
      using that by (simp add: doc_get_update)
    have fields: "userId (apply_update ?u e) = userId e"
      "?mv = JUndefined \<longrightarrow> moodValue (apply_update ?u e) = moodValue e"
      "?nt = JUndefined \<longrightarrow> mood_notes (apply_update ?u e) = mood_notes e"
      "?ra = JUndefined \<longrightarrow> recordedAt (apply_update ?u e) = recordedAt e"
      "?mv \<noteq> JUndefined \<longrightarrow> moodValue (apply_update ?u e) = parseInt ?mv"
      "?nt \<noteq> JUndefined \<longrightarrow> mood_notes (apply_update ?u e) = ?nt"
      "?ra \<noteq> JUndefined \<longrightarrow>
         Some (recordedAt (apply_update ?u e)) = tsFromDate E (newDate E ?ra)"
      using True by (auto simp: apply_update_def)
    show ?thesis
      unfolding r' using True e emp other fields by (simp del: newDate.simps)
  qed
qed

theorem C9_update_frame_witness:
  "(\<exists>e'. doc_get (snd (router_put utc_env req_notes_only [(1, alice_entry)])) 1 = Some e'
       \<and> status (fst (router_put utc_env req_notes_only [(1, alice_entry)])) = 200
       \<and> userId e' = ''alice'' \<and> moodValue e' = Fin 3
       \<and> mood_notes e' = JStr ''better''
       \<and> recordedAt e' = \<lparr>seconds = 1704067200, nanoseconds = 0\<rparr>)
   \<and> (\<exists>e'. doc_get (snd (router_put utc_env req_redate recent_store)) 3 = Some e'
       \<and> recordedAt (entry_at ''alice'' 1704190000) = \<lparr>seconds = 1704190000, nanoseconds = 0\<rparr>
       \<and> status (fst (router_put utc_env req_redate recent_store)) = 200
       \<and> userId e' = ''alice'' \<and> moodValue e' = Fin 5
       \<and> mood_notes e' = JStr ''''
       \<and> recordedAt e' = \<lparr>seconds = 1704067200, nanoseconds = 0\<rparr>)"
proof -
  have g: "doc_get [(1, alice_entry)] (param_id req_notes_only) = Some alice_entry"
    by (simp add: doc_get_def req_notes_only_facts)
  have o: "userId alice_entry = ''alice''" by (simp add: alice_entry_def)
  have g': "doc_get recent_store (param_id req_redate) = Some (entry_at ''alice'' 1704190000)"
    by (simp add: doc_get_def req_redate_facts recent_store_def)
  have o': "userId (entry_at ''alice'' 1704190000) = ''alice''" by (simp add: entry_at_def)
  have 1: "\<exists>e'. doc_get (snd (router_put utc_env req_notes_only [(1, alice_entry)])) 1 = Some e'
       \<and> status (fst (router_put utc_env req_notes_only [(1, alice_entry)])) = 200
       \<and> userId e' = ''alice'' \<and> moodValue e' = Fin 3
       \<and> mood_notes e' = JStr ''better''
       \<and> recordedAt e' = \<lparr>seconds = 1704067200, nanoseconds = 0\<rparr>"
    using C9_update_frame [OF req_notes_only_facts(1) g o]
    by (auto simp: req_notes_only_facts alice_entry_def)
  have 2: "\<exists>e'. doc_get (snd (router_put utc_env req_redate recent_store)) 3 = Some e'
       \<and> recordedAt (entry_at ''alice'' 1704190000) = \<lparr>seconds = 1704190000, nanoseconds = 0\<rparr>
       \<and> status (fst (router_put utc_env req_redate recent_store)) = 200
       \<and> userId e' = ''alice'' \<and> moodValue e' = Fin 5
       \<and> mood_notes e' = JStr ''''
       \<and> recordedAt e' = \<lparr>seconds = 1704067200, nanoseconds = 0\<rparr>"
    using C9_update_frame [OF req_redate_facts(1) g' o']
    by (auto simp: req_redate_facts req6_facts(5) entry_at_def
          simp del: newDate.simps parseInt.simps)
  from 1 2 show ?thesis by (rule conjI)
qed

section \<open>Buckets by day\<close>

text \<open>
  C8. Two entries on 2024-01-01 (UTC) with ratings 2 and 4 and one entry on 2024-01-02
  with rating 5, at any time of these days and in any order of the input, give exactly
  two chart points in this order: the day 2024-01-01 with 3.00 and the day 2024-01-02
  with 5.00, the oldest first.
\<close>

theorem C8_scenario:
  assumes a: "to_date (item_recordedAt a) = Some ta" "item_moodValue a = 2"
             "1704067200000 \<le> ta" "ta < 1704153600000"
    and b: "to_date (item_recordedAt b) = Some tb" "item_moodValue b = 4"
           "1704067200000 \<le> tb" "tb < 1704153600000"
    and c: "to_date (item_recordedAt c) = Some tc" "item_moodValue c = 5"
           "1704153600000 \<le> tc" "tc < 1704240000000"
    and m: "mset moods = {#a, b, c#}"
  shows "bucket_view (prepareChartData moods) =
           Inr [(''2024-01-01'', 3, ''#FFFF00''), (''2024-01-02'', 5, ''#0000FF'')]"
proof -
  have ka: "dateString ta = ''2024-01-01''"
    using Day_in_range [of 19723 ta] a by (simp add: dateString_def isoDate_2024_01_01)
  have kb: "dateString tb = ''2024-01-01''"
    using Day_in_range [of 19723 tb] b by (simp add: dateString_def isoDate_2024_01_01)
  have kc: "dateString tc = ''2024-01-02''"
    using Day_in_range [of 19724 tc] c by (simp add: dateString_def isoDate_2024_01_02)
  have mm: "mset moods = mset [a, b, c]" using m by simp
  have "abs_total moods = abs_total [a, b, c]" using mm by (rule abs_total_mset)
  then have "abs_total moods \<le> 9007199254740992" using a b c by (simp add: abs_total_def)
  with mm have "bucket_view (prepareChartData moods) = bucket_view (prepareChartData [a, b, c])"
    by (rule bucket_view_mset)
  also have "forEach_moods [] [a, b, c] =
               Inr [(''2024-01-01'', \<lparr>totalRating = 6, count = 2, originalDate = ta\<rparr>),
                    (''2024-01-02'', \<lparr>totalRating = 5, count = 1, originalDate = tc\<rparr>)]"
    by (simp add: add_mood_def a b c ka kb kc double_of_int_def)
  then have "prepareChartData [a, b, c] =
               Inr [chart_point \<lparr>totalRating = 6, count = 2, originalDate = ta\<rparr>,
                    chart_point \<lparr>totalRating = 5, count = 1, originalDate = tc\<rparr>]"
    by (simp add: prepareChartData_def date_value_2024)
  then have "bucket_view (prepareChartData [a, b, c]) =
           Inr [(''2024-01-01'', 3, ''#FFFF00''), (''2024-01-02'', 5, ''#0000FF'')]"
    by (simp add: bucket_view_def chart_point_def ka kc round_3_5 moodColors_def)
  finally show ?thesis .
qed

theorem C8_scenario_witness:
  "bucket_view (prepareChartData [jan2_rating5, jan1_rating4, jan1_rating2]) =
     Inr [(''2024-01-01'', 3, ''#FFFF00''), (''2024-01-02'', 5, ''#0000FF'')]"
  using C8_scenario [of jan1_rating2 1704103200000 jan1_rating4 1704150000000
                        jan2_rating5 1704153600000 "[jan2_rating5, jan1_rating4, jan1_rating2]"]
  by (simp add: jan1_rating2_def jan1_rating4_def jan2_rating5_def timeClip_def)

text \<open>
  C5, as the specification states it, fails on the \<open>x\<close> of a chart point: it is the time of
  the entry that created the bucket, the first of that day in the input. Two entries of
  one day in the two orders give points with different \<open>x\<close>.
\<close>

theorem C5_x_depends_on_order:
  "prepareChartData [morning, late_evening] =
     Inr [\<lparr>point_x = 1704103200000, point_y = 3, fillColor = ''#FFFF00''\<rparr>]
   \<and> prepareChartData [late_evening, morning] =
     Inr [\<lparr>point_x = 1704151800000, point_y = 3, fillColor = ''#FFFF00''\<rparr>]"
  by code_simp

text \<open>
  The sums are sums of doubles: with ratings whose magnitudes add up to more than \<open>2^53\<close>
  a sum is rounded on the way, and the average of a day depends on the order too.
\<close>

lemma large_ratings_depend_on_order:
  "map point_y (projr (prepareChartData [huge_rating, late_evening, morning]))
     = [3002399751580332]
   \<and> map point_y (projr (prepareChartData [morning, huge_rating, late_evening]))
     = [6004799503160665 / 2]"
  by code_simp

text \<open>
  C5, amended. For every input whose ratings have magnitudes that add up to at most
  \<open>2^53\<close> (every sum of ratings is then exact in a double) and every permutation of it,
  \<open>prepareChartData\<close> gives the same sequence of days, with the same average and the
  same colour for each, element for element (or throws in both cases); only the \<open>x\<close>
  within the day may differ.
\<close>

theorem C5_bucketByDay_order_independent:
  assumes "mset moods = mset moods'"
    and "abs_total moods \<le> 9007199254740992"
  shows "bucket_view (prepareChartData moods) = bucket_view (prepareChartData moods')"
  using assms by (rule bucket_view_mset)

theorem C5_bucketByDay_order_independent_witness:
  "bucket_view (prepareChartData [late_evening, morning, after_midnight])
     = bucket_view (prepareChartData [after_midnight, morning, late_evening])"
  using C5_bucketByDay_order_independent
          [of "[late_evening, morning, after_midnight]" "[after_midnight, morning, late_evening]"]
  by (simp add: abs_total_def late_evening_def morning_def after_midnight_def)

text \<open>
  C10. The key of a bucket is the UTC calendar date of \<open>recordedAt\<close>, the date part of its
  ISO string; no time zone enters. Two entries have the same key if and only if their
  time values fall on the same UTC day (\<open>t div 86400000\<close>), so two entries on one UTC
  date share one chart point and two entries on either side of a UTC midnight give two,
  however close they are.
\<close>

theorem C10_buckets_by_utc_date:
  assumes "to_date (item_recordedAt a) = Some ta" "to_date (item_recordedAt b) = Some tb"
  shows "(dateString ta = dateString tb \<longleftrightarrow> ta div 86400000 = tb div 86400000)
       \<and> (\<exists>ps. prepareChartData [a, b] = Inr ps
              \<and> length ps = (if ta div 86400000 = tb div 86400000 then 1 else 2))"
proof -
  have k: "dateString ta = dateString tb \<longleftrightarrow> ta div 86400000 = tb div 86400000"
    using dateString_eq_iff [of ta tb] assms to_date_clipped
    by (simp add: Day_def msPerDay_def)
  have "\<exists>dm. forEach_moods [] [a, b] = Inr dm
              \<and> length dm = (if dateString ta = dateString tb then 1 else 2)"
  proof (cases "dateString ta = dateString tb")
    case True
    then show ?thesis by (simp add: add_mood_def assms Let_def)
  next
    case False
    then have "dateString tb \<noteq> dateString ta" by simp
    then show ?thesis by (simp add: add_mood_def assms Let_def)
  qed
  then obtain dm where dm: "forEach_moods [] [a, b] = Inr dm"
    "length dm = (if dateString ta = dateString tb then 1 else 2)"
    by blast
  have "prepareChartData [a, b] =
          Inr (map (\<lambda>(k, b). chart_point b) (sort_key (\<lambda>(k, b). date_value k) dm))"
    by (simp only: prepareChartData_def dm sum.case)
  with dm(2) k show ?thesis by simp
qed

theorem C10_buckets_by_utc_date_witness:
  "dateString 1704151800000 = ''2024-01-01'' \<and> dateString 1704155400000 = ''2024-01-02''
   \<and> dateString 1704103200000 = dateString 1704151800000
   \<and> (\<exists>ps. prepareChartData [late_evening, after_midnight] = Inr ps \<and> length ps = 2)
   \<and> (\<exists>ps. prepareChartData [morning, late_evening] = Inr ps \<and> length ps = 1)"
proof -
  have t: "to_date (item_recordedAt late_evening) = Some 1704151800000"
          "to_date (item_recordedAt after_midnight) = Some 1704155400000"
          "to_date (item_recordedAt morning) = Some 1704103200000"
    by (simp_all add: late_evening_def after_midnight_def morning_def timeClip_def)
  have d: "dateString 1704151800000 = ''2024-01-01''" "dateString 1704155400000 = ''2024-01-02''"
    by code_simp+
  show ?thesis
    using C10_buckets_by_utc_date [OF t(1) t(2)] C10_buckets_by_utc_date [OF t(3) t(1)] d
    by simp
qed

end
